theory Spec2Isabelle
  imports Complex_Main "HOL-Library.Word" "HOL-Library.Log_Nat"
begin

unbundle bit_operations_syntax

section \<open>Values and errors\<close>

text \<open>
  The module \<^verbatim>\<open>openSprinkler.py\<close> decodes the fields of a JSON status document and
  encodes commands. An \<^verbatim>\<open>OpenSprinkler\<close> object keeps the host name and the hex
  digest of the password; the logger has no influence on any result and is left out.
\<close>

record OpenSprinkler =
  hostname :: string
  password :: string

text \<open>
  The Python values that reach the code: what a JSON document holds (without
  floating-point numbers), tuples, naive local date-times and the \<^verbatim>\<open>OpenSprinkler\<close>
  object that a controller has as its parent. A date-time is the number of microseconds
  of local wall-clock time since 0001-01-01T00:00:00, the first date-time of Python;
  the last one is the last microsecond of the year 9999.
\<close>

type_synonym datetime = int

datatype pyval =
    PNone
  | PBool bool
  | PInt int
  | PStr string
  | PList "pyval list"
  | PTuple "pyval list"
  | PDict "(string \<times> pyval) list"
  | PDateTime datetime
  | PSprinkler OpenSprinkler

text \<open>Exceptions are values; \<^verbatim>\<open>ValueError\<close> and \<^verbatim>\<open>KeyError\<close> carry their arguments.\<close>

datatype error =
    ValueError "pyval list"
  | KeyError pyval
  | TypeError
  | AttributeError
  | RecursionError
  | OverflowError
  | RequestException
  | OtherError string

type_synonym 'a result = "error + 'a"

text \<open>\<^verbatim>\<open>STATUS_SUCCESS\<close> and \<^verbatim>\<open>STATUS_CODES\<close> (lines 7 to 17).\<close>

definition STATUS_SUCCESS :: int where
  "STATUS_SUCCESS = 1"

definition STATUS_CODES :: "(int \<times> string) list" where
  "STATUS_CODES =
    [(1, ''Success''),
     (2, ''Unauthorized (e.g. missing password or password is incorrect)''),
     (3, ''Mismatch (e.g. new password and confirmation password do not match)''),
     (16, ''Data Missing (e.g. missing required parameters)''),
     (17, ''Out of Range (e.g. value exceeds the acceptable range)''),
     (18, ''Data Format Error (e.g. provided data does not match required format)''),
     (19, ''RF code error (e.g. RF code does not match required format)''),
     (32, ''Page Not Found (e.g. page not found or requested file missing)''),
     (48, ''Not Permitted (e.g. cannot operate on the requested station)'')]"

section \<open>Built-in operations of Python used by the module\<close>

text \<open>
  What the platform decides is a parameter: the clock, the conversion of an epoch
  time-stamp to local time, the parsing of a string by \<^verbatim>\<open>int\<close>, the text that
  \<^verbatim>\<open>str\<close> and \<^verbatim>\<open>repr\<close> give for containers and objects, and the answer of the
  device to a request (which may depend on the requests sent before).
\<close>

record response =
  status_code :: int
  json :: "(string \<times> pyval) list result"

record env =
  now :: datetime
  fromtimestamp :: "int \<Rightarrow> datetime result"
  parse_int :: "string \<Rightarrow> int option"
  str_of :: "pyval \<Rightarrow> string"
  repr_of :: "pyval \<Rightarrow> string"
  requests_get :: "string list \<Rightarrow> string \<Rightarrow> response result"

text \<open>A \<^verbatim>\<open>bool\<close> is an \<^verbatim>\<open>int\<close> in Python: \<^verbatim>\<open>True\<close> counts as 1 in arithmetic.\<close>

fun as_int :: "pyval \<Rightarrow> int option" where
  "as_int (PInt n) = Some n"
| "as_int (PBool b) = Some (if b then 1 else 0)"
| "as_int _ = None"

text \<open>Truth value of an object, as \<^verbatim>\<open>bool(x)\<close> and \<^verbatim>\<open>not x\<close> compute it.\<close>

fun truthy :: "pyval \<Rightarrow> bool" where
  "truthy PNone = False"
| "truthy (PBool b) = b"
| "truthy (PInt n) = (n \<noteq> 0)"
| "truthy (PStr s) = (s \<noteq> [])"
| "truthy (PList xs) = (xs \<noteq> [])"
| "truthy (PTuple xs) = (xs \<noteq> [])"
| "truthy (PDict d) = (d \<noteq> [])"
| "truthy (PDateTime t) = True"
| "truthy (PSprinkler p) = True"

text \<open>\<^verbatim>\<open>x == n\<close> for an integer literal \<^verbatim>\<open>n\<close>: only numbers can be equal to it.\<close>

definition eq_int :: "pyval \<Rightarrow> int \<Rightarrow> bool" where
  "eq_int x n = (as_int x = Some n)"

text \<open>Decimal text of an integer, as \<^verbatim>\<open>str\<close> and the format \<^verbatim>\<open>%d\<close> print it.\<close>

definition digit_char :: "nat \<Rightarrow> char" where
  "digit_char d = ''0123456789'' ! (d mod 10)"

fun str_nat :: "nat \<Rightarrow> string" where
  "str_nat n = (if n < 10 then [digit_char n] else str_nat (n div 10) @ [digit_char n])"

declare str_nat.simps [simp del]

definition str_int :: "int \<Rightarrow> string" where
  "str_int k = (if k < 0 then CHR ''-'' # str_nat (nat (- k)) else str_nat (nat k))"

definition py_str :: "env \<Rightarrow> pyval \<Rightarrow> string" where
  "py_str e v =
    (case v of
       PStr s \<Rightarrow> s
     | PInt n \<Rightarrow> str_int n
     | PBool b \<Rightarrow> (if b then ''True'' else ''False'')
     | PNone \<Rightarrow> ''None''
     | _ \<Rightarrow> str_of e v)"

text \<open>The built-in types used as decode and encode transforms.\<close>

definition py_int :: "env \<Rightarrow> pyval \<Rightarrow> pyval result" where
  "py_int e v =
    (case v of
       PInt n \<Rightarrow> Inr (PInt n)
     | PBool b \<Rightarrow> Inr (PInt (if b then 1 else 0))
     | PStr s \<Rightarrow>
         (case parse_int e s of
            Some n \<Rightarrow> Inr (PInt n)
          | None \<Rightarrow>
              Inl (ValueError
                [PStr (''invalid literal for int() with base 10: '' @ repr_of e (PStr s))]))
     | _ \<Rightarrow> Inl TypeError)"

definition py_bool :: "env \<Rightarrow> pyval \<Rightarrow> pyval result" where
  "py_bool e v = Inr (PBool (truthy v))"

definition py_str_type :: "env \<Rightarrow> pyval \<Rightarrow> pyval result" where
  "py_str_type e v = Inr (PStr (py_str e v))"

section \<open>Binary floating point\<close>

text \<open>
  A \<^verbatim>\<open>float\<close> of Python is a double: 53 significant bits and a power of two. The
  quotient of two numbers is the double nearest to the exact quotient, the one with the
  even last bit when two are equally near. The model keeps the rational value of a
  double. The limits of the exponent (overflow, subnormal numbers) are left out: the
  quotients that date-times of the years 1 to 9999 give are between \<open>2\<^sup>-\<^sup>2\<^sup>6\<close> and \<open>2\<^sup>3\<^sup>9\<close>.
\<close>

definition pow2 :: "int \<Rightarrow> rat" where
  "pow2 e = (if 0 \<le> e then 2 ^ nat e else 1 / 2 ^ nat (- e))"

text \<open>The exponent \<open>e\<close> of a number \<open>x\<close> other than 0: \<open>2\<^sup>e \<le> |x| < 2\<^sup>e\<^sup>+\<^sup>1\<close>.\<close>

definition exponent :: "rat \<Rightarrow> int" where
  "exponent x =
    (let (a, b) = quotient_of \<bar>x\<bar>; e0 = bitlen a - bitlen b
     in if pow2 e0 \<le> \<bar>x\<bar> then e0 else e0 - 1)"

definition round_half_even :: "rat \<Rightarrow> int" where
  "round_half_even z =
    (let f = \<lfloor>z\<rfloor>; t = z - of_int f
     in if t < 1 / 2 then f else if 1 / 2 < t then f + 1 else if even f then f else f + 1)"

definition round_double :: "rat \<Rightarrow> rat" where
  "round_double x =
    (if x = 0 then 0
     else (let ulp = pow2 (exponent x - 52) in of_int (round_half_even (x / ulp)) * ulp))"

text \<open>
  The operator \<^verbatim>\<open>/\<close> on integers and floats, for a divisor other than 0 (the module
  divides by \<open>10\<^sup>6\<close> and by 60 only).
\<close>

definition true_divide :: "rat \<Rightarrow> rat \<Rightarrow> rat" where
  "true_divide a b = round_double (a / b)"

text \<open>\<^verbatim>\<open>int(x)\<close> of a float drops the fraction, towards zero.\<close>

definition int_of_rat :: "rat \<Rightarrow> int" where
  "int_of_rat q = (if q < 0 then \<lceil>q\<rceil> else \<lfloor>q\<rfloor>)"

section \<open>Date-times and time differences\<close>

text \<open>
  A \<^verbatim>\<open>timedelta\<close> is a number of microseconds whose whole days are at most 999999999
  in magnitude, and a date-time lies within the years 1 to 9999, which are 3652059
  days. The constructor and the arithmetic raise \<^verbatim>\<open>OverflowError\<close> outside these
  ranges. \<^verbatim>\<open>now.replace(hour=0, minute=0, second=0, microsecond=0)\<close> keeps the date and
  clears the time of day.
\<close>

definition day_us :: int where
  "day_us = 86400000000"

definition minute_us :: int where
  "minute_us = 60000000"

definition datetime_end :: int where
  "datetime_end = 3652059 * day_us"

definition valid_datetime :: "datetime \<Rightarrow> bool" where
  "valid_datetime t \<longleftrightarrow> 0 \<le> t \<and> t < datetime_end"

definition timedelta :: "int \<Rightarrow> int result" where
  "timedelta us =
    (if - 999999999 \<le> us div day_us \<and> us div day_us \<le> 999999999 then Inr us
     else Inl OverflowError)"

definition datetime_add :: "datetime \<Rightarrow> int \<Rightarrow> datetime result" where
  "datetime_add t delta =
    (if valid_datetime (t + delta) then Inr (t + delta) else Inl OverflowError)"

definition replace_midnight :: "datetime \<Rightarrow> datetime" where
  "replace_midnight t = t - t mod day_us"

text \<open>
  \<^verbatim>\<open>total_seconds()\<close> is the quotient of the microseconds, an integer, by \<open>10\<^sup>6\<close>.
\<close>

definition total_seconds :: "int \<Rightarrow> rat" where
  "total_seconds d = true_divide (of_int d) 1000000"

section \<open>The transforms (lines 32 to 58)\<close>

definition OSDateTime :: "env \<Rightarrow> pyval \<Rightarrow> pyval result" where
  "OSDateTime e ts =
    (case as_int ts of
       None \<Rightarrow> Inl TypeError
     | Some n \<Rightarrow> (case fromtimestamp e n of Inl x \<Rightarrow> Inl x | Inr t \<Rightarrow> Inr (PDateTime t)))"

text \<open>
  \<^verbatim>\<open>midnight + datetime.timedelta(days=1) - datetime.timedelta(minutes=minutes)\<close>, in
  the order of evaluation: the difference of one day, the sum, the difference of the
  minutes (which needs a number), and the subtraction.
\<close>

definition SunTime :: "env \<Rightarrow> pyval \<Rightarrow> pyval result" where
  "SunTime e minutes =
    (if eq_int minutes 0 then Inr PNone
     else
       (let midnight = replace_midnight (now e) in
        case timedelta (1 * day_us) of
          Inl x \<Rightarrow> Inl x
        | Inr one_day \<Rightarrow>
            (case datetime_add midnight one_day of
               Inl x \<Rightarrow> Inl x
             | Inr tomorrow \<Rightarrow>
                 (case as_int minutes of
                    None \<Rightarrow> Inl TypeError
                  | Some n \<Rightarrow>
                      (case timedelta (n * minute_us) of
                         Inl x \<Rightarrow> Inl x
                       | Inr delta \<Rightarrow>
                           (case datetime_add tomorrow (- delta) of
                              Inl x \<Rightarrow> Inl x
                            | Inr t \<Rightarrow> Inr (PDateTime t)))))))"

text \<open>
  \<^verbatim>\<open>'%d.%d.%d.%d' % (ip>>24, (ip>>16)&0xFF, (ip>>8)&0xFF, ip&0xFF)\<close>, on Python's
  unbounded integers.
\<close>

definition IPAddress :: "env \<Rightarrow> pyval \<Rightarrow> pyval result" where
  "IPAddress e ip =
    (case as_int ip of
       None \<Rightarrow> Inl TypeError
     | Some n \<Rightarrow>
         Inr (PStr (str_int (drop_bit 24 n) @ ''.'' @
                    str_int (drop_bit 16 n AND 255) @ ''.'' @
                    str_int (drop_bit 8 n AND 255) @ ''.'' @
                    str_int (n AND 255))))"

text \<open>
  The loop of \<^verbatim>\<open>Stations\<close> appends \<^verbatim>\<open>stat & (1<<i)\<close> for \<^verbatim>\<open>i\<close> in
  \<^verbatim>\<open>range(8)\<close>; the operator \<^verbatim>\<open>&\<close> raises \<^verbatim>\<open>TypeError\<close> unless \<^verbatim>\<open>stat\<close> is a
  number.
\<close>

definition py_and :: "pyval \<Rightarrow> int \<Rightarrow> pyval result" where
  "py_and x m = (case as_int x of None \<Rightarrow> Inl TypeError | Some n \<Rightarrow> Inr (PInt (n AND m)))"

fun Stations_loop :: "pyval \<Rightarrow> nat list \<Rightarrow> pyval list \<Rightarrow> pyval list result" where
  "Stations_loop stat [] retval = Inr retval"
| "Stations_loop stat (i # rest) retval =
    (case py_and stat (push_bit i 1) of
       Inl x \<Rightarrow> Inl x
     | Inr b \<Rightarrow> Stations_loop stat rest (retval @ [b]))"

definition Stations :: "env \<Rightarrow> pyval \<Rightarrow> pyval result" where
  "Stations e stat =
    (case Stations_loop stat [0..<8] [] of Inl x \<Rightarrow> Inl x | Inr retval \<Rightarrow> Inr (PTuple retval))"

definition Nop :: "env \<Rightarrow> pyval \<Rightarrow> pyval result" where
  "Nop e val = Inr val"

text \<open>
  \<^verbatim>\<open>int((dt - now).total_seconds() / 60)\<close>: the difference of two date-times is a
  \<^verbatim>\<open>timedelta\<close> (always within its range), \<^verbatim>\<open>total_seconds()\<close> is a float, the quotient
  by 60 is a float, and \<^verbatim>\<open>int\<close> drops its fraction.
\<close>

definition RainDelaySet :: "env \<Rightarrow> pyval \<Rightarrow> pyval result" where
  "RainDelaySet e dt =
    (if \<not> truthy dt then Inr (PInt 0)
     else
       (case dt of
          PDateTime t \<Rightarrow> Inr (PInt (int_of_rat (true_divide (total_seconds (t - now e)) 60)))
        | _ \<Rightarrow> Inl TypeError))"

section \<open>Field descriptors and the registries (lines 19 to 30, 83 to 111)\<close>

text \<open>
  A descriptor pairs a wire key with the callable that converts the value. The two
  subclasses differ in their one method only.
\<close>

record FieldDescriptor =
  tag :: string
  type :: "env \<Rightarrow> pyval \<Rightarrow> pyval result"

definition dict_get :: "(string \<times> pyval) list \<Rightarrow> string \<Rightarrow> pyval result" where
  "dict_get data k = (case map_of data k of None \<Rightarrow> Inl (KeyError (PStr k)) | Some v \<Rightarrow> Inr v)"

fun dict_set :: "(string \<times> pyval) list \<Rightarrow> string \<Rightarrow> pyval \<Rightarrow> (string \<times> pyval) list" where
  "dict_set [] k v = [(k, v)]"
| "dict_set ((k', v') # rest) k v =
    (if k' = k then (k, v) # rest else (k', v') # dict_set rest k v)"

text \<open>\<^verbatim>\<open>return self._type(data[self._tag])\<close>\<close>

definition getAsType :: "env \<Rightarrow> FieldDescriptor \<Rightarrow> (string \<times> pyval) list \<Rightarrow> pyval result" where
  "getAsType e self data =
    (case dict_get data (tag self) of Inl x \<Rightarrow> Inl x | Inr raw \<Rightarrow> type self e raw)"

text \<open>
  \<^verbatim>\<open>data[self._tag] = self._type(data)\<close>: the callable receives the dictionary
  \<^verbatim>\<open>data\<close> itself, and the dictionary, changed in place, is what the caller sees.
\<close>

definition setAsType :: "env \<Rightarrow> FieldDescriptor \<Rightarrow> (string \<times> pyval) list \<Rightarrow> (string \<times> pyval) list result" where
  "setAsType e self data =
    (case type self e (PDict data) of Inl x \<Rightarrow> Inl x | Inr v \<Rightarrow> Inr (dict_set data (tag self) v))"

definition my_get_args :: "(string \<times> FieldDescriptor) list" where
  "my_get_args =
    [(''device_time'', \<lparr>tag = ''devt'', type = OSDateTime\<rparr>),
     (''board_count'', \<lparr>tag = ''nbrd'', type = py_int\<rparr>),
     (''enable'', \<lparr>tag = ''en'', type = py_bool\<rparr>),
     (''rain_delay'', \<lparr>tag = ''rd'', type = py_bool\<rparr>),
     (''rain_sensor'', \<lparr>tag = ''rs'', type = py_bool\<rparr>),
     (''rain_resume'', \<lparr>tag = ''rdst'', type = py_str_type\<rparr>),
     (''location'', \<lparr>tag = ''loc'', type = py_str_type\<rparr>),
     (''weather_id'', \<lparr>tag = ''wtkey'', type = py_str_type\<rparr>),
     (''sunrise'', \<lparr>tag = ''sunrise'', type = SunTime\<rparr>),
     (''sunset'', \<lparr>tag = ''sunset'', type = SunTime\<rparr>),
     (''external_ip'', \<lparr>tag = ''eip'', type = IPAddress\<rparr>),
     (''last_weather'', \<lparr>tag = ''lwc'', type = OSDateTime\<rparr>),
     (''last_good_weather'', \<lparr>tag = ''lswc'', type = OSDateTime\<rparr>),
     (''station_status'', \<lparr>tag = ''sbits'', type = Stations\<rparr>),
     (''program_status'', \<lparr>tag = ''ps'', type = Nop\<rparr>),
     (''last_run'', \<lparr>tag = ''lrun'', type = Nop\<rparr>)]"

definition my_set_args :: "(string \<times> FieldDescriptor) list" where
  "my_set_args =
    [(''reset_all'', \<lparr>tag = ''rsn'', type = py_int\<rparr>),
     (''reboot'', \<lparr>tag = ''rbt'', type = py_int\<rparr>),
     (''enable'', \<lparr>tag = ''en'', type = py_int\<rparr>),
     (''rain_delay'', \<lparr>tag = ''rd'', type = RainDelaySet\<rparr>),
     (''remote_extension'', \<lparr>tag = ''re'', type = py_int\<rparr>)]"

section \<open>The transport (lines 144 to 165)\<close>

text \<open>
  The state of the world is the list of the URLs requested so far. \<^verbatim>\<open>_json_get\<close>
  builds the URL, sends the request, and reads the envelope of the answer. The device
  answers with a JSON object, so \<^verbatim>\<open>r.json()\<close> is a dictionary or fails.
\<close>

text \<open>
  \<^verbatim>\<open>STATUS_CODES[retval['result']]\<close>: a number is looked up by its value, a list or a
  dictionary cannot be hashed, anything else is a key that the table does not have.
\<close>

fun hashable :: "pyval \<Rightarrow> bool" where
  "hashable (PList xs) = False"
| "hashable (PDict d) = False"
| "hashable (PTuple xs) = list_all hashable xs"
| "hashable _ = True"

definition STATUS_CODES_getitem :: "pyval \<Rightarrow> string result" where
  "STATUS_CODES_getitem k =
    (if \<not> hashable k then Inl TypeError
     else
       (case as_int k of
          None \<Rightarrow> Inl (KeyError k)
        | Some n \<Rightarrow> (case map_of STATUS_CODES n of None \<Rightarrow> Inl (KeyError k) | Some s \<Rightarrow> Inr s)))"

text \<open>
  The URL of lines 145 to 151: the loop over \<^verbatim>\<open>variables.items()\<close> runs when
  \<^verbatim>\<open>variables\<close> is neither \<^verbatim>\<open>None\<close> nor empty, and over an empty dictionary it would add
  nothing; the keys are strings already.
\<close>

definition request_url :: "env \<Rightarrow> OpenSprinkler \<Rightarrow> string \<Rightarrow> (string \<times> pyval) list option \<Rightarrow> string" where
  "request_url e self path variables =
    (let requests_str = ''http://'' @ hostname self @ ''/'' @ path @ ''/?pw='' @ password self in
     case variables of
       None \<Rightarrow> requests_str
     | Some vs \<Rightarrow> foldl (\<lambda>s (k, v). s @ ''&'' @ k @ ''='' @ py_str e v) requests_str vs)"

definition json_get ::
  "env \<Rightarrow> string list \<Rightarrow> OpenSprinkler \<Rightarrow> string \<Rightarrow> (string \<times> pyval) list option
    \<Rightarrow> string list \<times> (string \<times> pyval) list result" where
  "json_get e sent self path variables =
    (let requests_str = request_url e self path variables in
     case requests_get e sent requests_str of
       Inl x \<Rightarrow> (sent @ [requests_str], Inl x)
     | Inr r \<Rightarrow>
         (sent @ [requests_str],
          if status_code r \<noteq> 200
          then Inl (ValueError [PStr ''Failed GET request with status %d.'', PInt (status_code r)])
          else
            (case json r of
               Inl x \<Rightarrow> Inl x
             | Inr retval \<Rightarrow>
                 (case map_of retval ''result'' of
                    None \<Rightarrow> Inr retval
                  | Some res \<Rightarrow>
                      if \<not> eq_int res STATUS_SUCCESS
                      then
                        (case STATUS_CODES_getitem res of
                           Inl x \<Rightarrow> Inl x
                         | Inr msg \<Rightarrow>
                             Inl (ValueError [PStr ''Failure response (%d):%s'', res, PStr msg]))
                      else Inr retval))))"

section \<open>The controller (lines 61 to 127)\<close>

text \<open>
  A \<^verbatim>\<open>Controller\<close> object is its instance dictionary. The registries are attributes
  of the class, and the methods reach them, and the parent, through \<^verbatim>\<open>self\<close>: Python
  looks in the instance dictionary first and in the class after it, and calls
  \<^verbatim>\<open>__getattr__\<close> when both miss.
\<close>

record Controller =
  attrs :: "(string \<times> pyval) list"

text \<open>
  \<^verbatim>\<open>self.my_get_args.keys()\<close> and \<^verbatim>\<open>self.my_set_args.keys()\<close>: the keys of the
  registry of the class, unless an instance attribute of that name hides it; a hiding
  value that is no dictionary has no method \<^verbatim>\<open>keys\<close>.
\<close>

definition registry_keys ::
  "Controller \<Rightarrow> string \<Rightarrow> (string \<times> FieldDescriptor) list \<Rightarrow> string list result" where
  "registry_keys self attr cls =
    (case map_of (attrs self) attr of
       None \<Rightarrow> Inr (map fst cls)
     | Some (PDict d) \<Rightarrow> Inr (map fst d)
     | Some _ \<Rightarrow> Inl AttributeError)"

text \<open>
  \<^verbatim>\<open>self.my_get_args[name]\<close> and \<^verbatim>\<open>self.my_set_args[name]\<close>, for a name that is among
  the keys: a descriptor of the class, or an entry of the hiding dictionary, which has
  neither \<^verbatim>\<open>getAsType\<close> nor \<^verbatim>\<open>setAsType\<close>.
\<close>

definition registry_item ::
  "Controller \<Rightarrow> string \<Rightarrow> (string \<times> FieldDescriptor) list \<Rightarrow> string \<Rightarrow> FieldDescriptor result" where
  "registry_item self attr cls name =
    (case map_of (attrs self) attr of
       None \<Rightarrow> (case map_of cls name of None \<Rightarrow> Inl (KeyError (PStr name)) | Some d \<Rightarrow> Inr d)
     | Some _ \<Rightarrow> Inl AttributeError)"

text \<open>
  \<^verbatim>\<open>self.parent\<close>: the instance attribute, and without one what
  \<^verbatim>\<open>__getattr__('parent')\<close> returns, which is \<^verbatim>\<open>None\<close> unless the name is a key of
  the registry, where the method reads \<^verbatim>\<open>self.parent\<close> again, without end.
\<close>

definition self_parent :: "Controller \<Rightarrow> pyval result" where
  "self_parent self =
    (case map_of (attrs self) ''parent'' of
       Some p \<Rightarrow> Inr p
     | None \<Rightarrow>
         (case registry_keys self ''my_get_args'' my_get_args of
            Inl x \<Rightarrow> Inl x
          | Inr ks \<Rightarrow> if ''parent'' \<in> set ks then Inl RecursionError else Inr PNone))"

text \<open>\<^verbatim>\<open>self.parent._json_get(path, variables)\<close>: only an \<^verbatim>\<open>OpenSprinkler\<close> has the method.\<close>

definition parent_json_get ::
  "env \<Rightarrow> string list \<Rightarrow> Controller \<Rightarrow> string \<Rightarrow> (string \<times> pyval) list option
    \<Rightarrow> string list \<times> (string \<times> pyval) list result" where
  "parent_json_get e sent self path variables =
    (case self_parent self of
       Inl x \<Rightarrow> (sent, Inl x)
     | Inr (PSprinkler p) \<Rightarrow> json_get e sent p path variables
     | Inr _ \<Rightarrow> (sent, Inl AttributeError))"

text \<open>
  \<^verbatim>\<open>__getattr__\<close> (lines 116 to 119). A name that is not a key falls off the end of the
  method, which returns \<^verbatim>\<open>None\<close>.
\<close>

definition Controller_getattr ::
  "env \<Rightarrow> string list \<Rightarrow> Controller \<Rightarrow> string \<Rightarrow> string list \<times> pyval result" where
  "Controller_getattr e sent self name =
    (case registry_keys self ''my_get_args'' my_get_args of
       Inl x \<Rightarrow> (sent, Inl x)
     | Inr ks \<Rightarrow>
         if name \<in> set ks
         then
           (case parent_json_get e sent self ''jc'' None of
              (sent', Inl x) \<Rightarrow> (sent', Inl x)
            | (sent', Inr data) \<Rightarrow>
                (sent',
                 case registry_item self ''my_get_args'' my_get_args name of
                   Inl x \<Rightarrow> Inl x
                 | Inr d \<Rightarrow> getAsType e d data))
         else (sent, Inr PNone))"

text \<open>
  \<^verbatim>\<open>object.__setattr__\<close>, the method of the base class: the three names that the type
  handles itself apart (a dictionary replaces the instance dictionary, no value of the
  model is a class, the weak-reference slot is read-only), it stores the value in the
  instance dictionary.
\<close>

definition object_setattr :: "Controller \<Rightarrow> string \<Rightarrow> pyval \<Rightarrow> Controller result" where
  "object_setattr self name val =
    (if name = ''__dict__''
     then (case val of PDict d \<Rightarrow> Inr (self\<lparr>attrs := d\<rparr>) | _ \<Rightarrow> Inl TypeError)
     else if name = ''__class__'' then Inl TypeError
     else if name = ''__weakref__'' then Inl AttributeError
     else Inr (self\<lparr>attrs := dict_set (attrs self) name val\<rparr>))"

text \<open>
  \<^verbatim>\<open>__setattr__\<close> (lines 121 to 127). In the first branch the descriptor receives the
  empty dictionary \<^verbatim>\<open>data\<close>; the parameter \<^verbatim>\<open>value\<close> occurs in the second branch
  only.
\<close>

definition Controller_setattr ::
  "env \<Rightarrow> string list \<Rightarrow> Controller \<Rightarrow> string \<Rightarrow> pyval
    \<Rightarrow> string list \<times> Controller \<times> unit result" where
  "Controller_setattr e sent self name val =
    (case registry_keys self ''my_set_args'' my_set_args of
       Inl x \<Rightarrow> (sent, self, Inl x)
     | Inr ks \<Rightarrow>
         if name \<in> set ks
         then
           (let data = [] in
            case registry_item self ''my_set_args'' my_set_args name of
              Inl x \<Rightarrow> (sent, self, Inl x)
            | Inr d \<Rightarrow>
                (case setAsType e d data of
                   Inl x \<Rightarrow> (sent, self, Inl x)
                 | Inr data' \<Rightarrow>
                     (case parent_json_get e sent self ''cv'' (Some data') of
                        (sent', Inl x) \<Rightarrow> (sent', self, Inl x)
                      | (sent', Inr r) \<Rightarrow> (sent', self, Inr ()))))
         else
           (case object_setattr self name val of
              Inl x \<Rightarrow> (sent, self, Inl x)
            | Inr self' \<Rightarrow> (sent, self', Inr ())))"

text \<open>\<^verbatim>\<open>__init__\<close>: the assignment \<^verbatim>\<open>self.parent = p\<close> on the new, empty object.\<close>

definition Controller_init ::
  "env \<Rightarrow> string list \<Rightarrow> pyval \<Rightarrow> string list \<times> Controller \<times> unit result" where
  "Controller_init e sent p = Controller_setattr e sent \<lparr>attrs = []\<rparr> ''parent'' p"

text \<open>
  Reading \<^verbatim>\<open>controller.name\<close> from outside, for a name that the class does not define
  (no key of a registry is such a name): the instance dictionary, then \<^verbatim>\<open>__getattr__\<close>.
\<close>

definition read_attribute ::
  "env \<Rightarrow> string list \<Rightarrow> Controller \<Rightarrow> string \<Rightarrow> string list \<times> pyval result" where
  "read_attribute e sent self name =
    (case map_of (attrs self) name of
       Some v \<Rightarrow> (sent, Inr v)
     | None \<Rightarrow> Controller_getattr e sent self name)"

section \<open>States of a controller and answers of the device\<close>

text \<open>
  The registries that the methods see are those of the class when no instance attribute
  hides them, and requests reach a device when the parent is an \<^verbatim>\<open>OpenSprinkler\<close>.
\<close>

definition registries_of_class :: "Controller \<Rightarrow> bool" where
  "registries_of_class self \<longleftrightarrow>
     map_of (attrs self) ''my_get_args'' = None \<and> map_of (attrs self) ''my_set_args'' = None"

definition has_parent :: "Controller \<Rightarrow> OpenSprinkler \<Rightarrow> bool" where
  "has_parent self p \<longleftrightarrow> map_of (attrs self) ''parent'' = Some (PSprinkler p)"

text \<open>No key of the Set registry is the name of an instance attribute.\<close>

definition set_names_unbound :: "Controller \<Rightarrow> bool" where
  "set_names_unbound self \<longleftrightarrow>
     list_all (\<lambda>n. map_of (attrs self) n = None) (map fst my_set_args)"

text \<open>The names that \<^verbatim>\<open>object.__setattr__\<close> stores in the instance dictionary.\<close>

definition ordinary_name :: "string \<Rightarrow> bool" where
  "ordinary_name name \<longleftrightarrow> name \<notin> set [''__dict__'', ''__class__'', ''__weakref__'']"

text \<open>The device answers the request for a URL with status 200 and a JSON object.\<close>

definition answers :: "env \<Rightarrow> string list \<Rightarrow> string \<Rightarrow> (string \<times> pyval) list \<Rightarrow> bool" where
  "answers e sent url doc \<longleftrightarrow>
     (case requests_get e sent url of
        Inl x \<Rightarrow> False
      | Inr r \<Rightarrow> status_code r = 200 \<and> json r = Inr doc)"

section \<open>Test data\<close>

text \<open>
  The re-packing by which the specification tests the decoded station status,
  \<^verbatim>\<open>sum(bit_i << i)\<close>, on the elements of a tuple (a \<^verbatim>\<open>bool\<close> shifts as 0 or 1).
\<close>

fun repack_from :: "nat \<Rightarrow> pyval list \<Rightarrow> int option" where
  "repack_from i [] = Some 0"
| "repack_from i (b # bs) =
    (case as_int b of
       None \<Rightarrow> None
     | Some n \<Rightarrow> (case repack_from (Suc i) bs of None \<Rightarrow> None | Some s \<Rightarrow> Some (push_bit i n + s)))"

definition repack :: "pyval list \<Rightarrow> int option" where
  "repack bits = repack_from 0 bits"

text \<open>
  A device that answers every request with status 200 and a given document, a clock at
  noon of the second day, and a controller made by \<^verbatim>\<open>__init__\<close>.
\<close>

definition sample_env :: "(string \<times> pyval) list \<Rightarrow> env" where
  "sample_env doc =
    \<lparr>now = 129600000000,
     fromtimestamp = (\<lambda>n. Inr (n * 1000000)),
     parse_int = (\<lambda>s. None),
     str_of = (\<lambda>v. ''?''),
     repr_of = (\<lambda>v. ''?''),
     requests_get = (\<lambda>sent url. Inr \<lparr>status_code = 200, json = Inr doc\<rparr>)\<rparr>"

text \<open>Noon of 2026-11-05, the 739925th day.\<close>

definition sample_noon :: datetime where
  "sample_noon = 739924 * day_us + 43200000000"

definition sample_sprinkler :: OpenSprinkler where
  "sample_sprinkler = \<lparr>hostname = ''sprinkler.local'', password = ''5f4dcc3b5aa765d61d8327deb882cf99''\<rparr>"

definition sample_controller :: Controller where
  "sample_controller = \<lparr>attrs = [(''parent'', PSprinkler sample_sprinkler)]\<rparr>"

section \<open>The station status decode\<close>

text \<open>The loop collects the eight masked values of an integer, in order.\<close>

lemma Stations_loop_eq:
  "Stations_loop (PInt m) ns acc = Inr (acc @ map (\<lambda>i. PInt (m AND 2 ^ i)) ns)"
  by (induction ns arbitrary: acc) (simp_all add: py_and_def)

lemma Stations_PInt:
  "Stations e (PInt m) = Inr (PTuple (map (\<lambda>i. PInt (m AND 2 ^ i)) [0..<8]))"
  by (simp add: Stations_def Stations_loop_eq)

lemma and_pow_mod:
  assumes "i < 8"
  shows "(m mod 256) AND 2 ^ i = (m::int) AND 2 ^ i"
proof -
  have "m mod 256 = take_bit 8 m" by (simp add: take_bit_eq_mod)
  moreover have "take_bit 8 m AND 2 ^ i = m AND 2 ^ i" using assms
    by (intro bit_eqI) (auto simp add: bit_and_iff bit_take_bit_iff bit_exp_iff)
  ultimately show ?thesis by simp
qed

lemma and_pow_bit: "(m::int) AND 2 ^ i = (if bit m i then 2 ^ i else 0)"
  by (intro bit_eqI) (auto simp add: bit_and_iff bit_exp_iff)

lemma bits8_sum:
  assumes "0 \<le> m" "m \<le> 255"
  shows "(\<Sum>k = 0..<8. push_bit k (of_bool (bit m k))) = (m::int)"
proof -
  have "take_bit 8 m = m" using assms by (simp add: take_bit_eq_mod)
  then show ?thesis by (simp only: take_bit_sum [symmetric])
qed

lemma repack_from_bools:
  "repack_from i (map (\<lambda>k. PBool (bit (m::int) k)) [i..<i + n])
     = Some (\<Sum>k = i..<i + n. push_bit k (of_bool (bit m k)))"
proof (induction n arbitrary: i)
  case 0
  then show ?case by simp
next
  case (Suc n)
  have "[i..<i + Suc n] = i # [Suc i..<Suc i + n]" by (simp add: upt_conv_Cons)
  moreover have "{i..<i + Suc n} = insert i {Suc i..<Suc i + n}" by auto
  ultimately show ?case using Suc.IH [of "Suc i"] by simp
qed

text \<open>
  C10: for every integer \<open>m\<close>, so for every non-negative one and for those of 256 and
  above, the decode of the station status is a tuple of exactly 8 elements, and it is
  the tuple decoded from \<open>m mod 256\<close>: the bits above bit 7 have no influence.
\<close>

theorem Stations_mod_256:
  "Stations e (PInt m) = Stations e (PInt (m mod 256)) \<and>
   (\<exists>t. Stations e (PInt m) = Inr (PTuple t) \<and> length t = 8)"
proof -
  have "map (\<lambda>i. PInt (m AND 2 ^ i)) [0..<8] = map (\<lambda>i. PInt (m mod 256 AND 2 ^ i)) [0..<8]"
    by (rule map_cong) (simp_all add: and_pow_mod)
  then show ?thesis by (simp add: Stations_PInt)
qed

text \<open>
  C1, as amended: for every integer \<open>m\<close> from 0 to 255 the decode is a tuple of exactly 8
  integers, not booleans; element \<open>i\<close> is \<^verbatim>\<open>m & (1<<i)\<close>, that is \<open>2\<^sup>i\<close> when bit \<open>i\<close> of \<open>m\<close>
  is set and 0 otherwise, so it is true as a condition exactly when the bit is set.
  Re-packing the truth values of the elements as \<^verbatim>\<open>sum(bit_i << i)\<close> recovers \<open>m\<close>, and
  so does the plain sum of the elements.
\<close>

theorem Stations_decode_8bit:
  assumes "0 \<le> m" and "m \<le> 255"
  shows "\<exists>t. Stations e (PInt m) = Inr (PTuple t) \<and> length t = 8 \<and>
           (\<forall>i<8. t ! i = PInt (if bit m i then 2 ^ i else 0) \<and> (truthy (t ! i) \<longleftrightarrow> bit m i)) \<and>
           repack (map (\<lambda>v. PBool (truthy v)) t) = Some m \<and>
           sum_list (map (\<lambda>v. case as_int v of None \<Rightarrow> 0 | Some n \<Rightarrow> n) t) = m"
proof -
  define t where "t = map (\<lambda>i. PInt (m AND 2 ^ i)) [0..<8]"
  have dec: "Stations e (PInt m) = Inr (PTuple t)"
    by (simp add: t_def Stations_PInt)
  have len: "length t = 8" by (simp add: t_def)
  have elems: "\<forall>i<8. t ! i = PInt (if bit m i then 2 ^ i else 0) \<and> (truthy (t ! i) \<longleftrightarrow> bit m i)"
    by (simp add: t_def and_pow_bit)
  have "map (\<lambda>v. PBool (truthy v)) t = map (\<lambda>k. PBool (bit m k)) [0..<0 + 8]"
    by (simp add: t_def and_pow_bit)
  then have pack: "repack (map (\<lambda>v. PBool (truthy v)) t) = Some m"
    unfolding repack_def by (simp only: repack_from_bools) (simp add: bits8_sum [OF assms])
  have "sum_list (map (\<lambda>v. case as_int v of None \<Rightarrow> 0 | Some n \<Rightarrow> n) t)
          = (\<Sum>k\<leftarrow>[0..<8]. push_bit k (of_bool (bit m k)))"
    unfolding t_def map_map by (rule arg_cong [where f = sum_list], rule map_cong) (simp_all add: and_pow_bit push_bit_eq_mult)
  also have "\<dots> = m"
    unfolding interv_sum_list_conv_sum_set_nat by (simp add: bits8_sum [OF assms])
  finally have total: "sum_list (map (\<lambda>v. case as_int v of None \<Rightarrow> 0 | Some n \<Rightarrow> n) t) = m" .
  from dec len elems pack total show ?thesis by blast
qed

theorem Stations_decode_8bit_witness:
  "(0::int) \<le> 5 \<and> (5::int) \<le> 255 \<and>
   (\<exists>t. Stations (sample_env []) (PInt 5) = Inr (PTuple t) \<and> length t = 8 \<and>
      (\<forall>i<8. t ! i = PInt (if bit (5::int) i then 2 ^ i else 0) \<and> (truthy (t ! i) \<longleftrightarrow> bit (5::int) i)) \<and>
      repack (map (\<lambda>v. PBool (truthy v)) t) = Some 5 \<and>
      sum_list (map (\<lambda>v. case as_int v of None \<Rightarrow> 0 | Some n \<Rightarrow> n) t) = 5)"
  using Stations_decode_8bit [of 5 "sample_env []"] by simp

text \<open>
  C1 as stated fails at 5: the decode is \<^verbatim>\<open>(1, 0, 4, 0, 0, 0, 0, 0)\<close>, which is not the
  tuple of booleans (4 is not equal to \<^verbatim>\<open>True\<close>), and \<^verbatim>\<open>sum(bit_i << i)\<close> over it is 17.
\<close>

theorem Stations_not_booleans_counterexample:
  "Stations (sample_env []) (PInt 5)
     = Inr (PTuple [PInt 1, PInt 0, PInt 4, PInt 0, PInt 0, PInt 0, PInt 0, PInt 0]) \<and>
   Stations (sample_env []) (PInt 5)
     \<noteq> Inr (PTuple [PBool True, PBool False, PBool True, PBool False,
                     PBool False, PBool False, PBool False, PBool False]) \<and>
   \<not> eq_int (PInt 4) 1 \<and>
   repack [PInt 1, PInt 0, PInt 4, PInt 0, PInt 0, PInt 0, PInt 0, PInt 0] = Some 17"
  by (simp add: Stations_def py_and_def upt_conv_Cons eq_int_def repack_def)

section \<open>The address decode\<close>

text \<open>On integers, masking with \<^verbatim>\<open>0xFF\<close> is the remainder modulo 256.\<close>

lemma and_255: "(x::int) AND 255 = x mod 256"
proof -
  have "(255::int) = mask 8" by (simp add: mask_eq_exp_minus_1)
  then have "x AND 255 = take_bit 8 x" by (simp only: take_bit_eq_mask)
  then show ?thesis by (simp add: take_bit_eq_mod)
qed

lemma IPAddress_PInt:
  "IPAddress e (PInt ip) =
     Inr (PStr (str_int (ip div 16777216) @ ''.'' @ str_int (ip div 65536 mod 256) @ ''.'' @
                str_int (ip div 256 mod 256) @ ''.'' @ str_int (ip mod 256)))"
  by (simp add: IPAddress_def and_255 drop_bit_eq_div)

lemma str_int_examples:
  "str_int 0 = ''0''" "str_int 10 = ''10''" "str_int 11 = ''11''" "str_int 12 = ''12''"
  "str_int 13 = ''13''" "str_int 255 = ''255''"
  by (simp_all add: str_int_def str_nat.simps digit_char_def)

lemma bytes_assemble:
  fixes a :: int
  assumes "a = x * 256 + r0" and "x = y * 256 + r1" and "y = z * 256 + r2"
  shows "a = z * 16777216 + r2 * 65536 + r1 * 256 + r0"
  using assms by simp

text \<open>
  C7: for every 32-bit integer \<open>ip\<close> (from 0 to \<open>2\<^sup>3\<^sup>2 - 1\<close>) the decode of the external
  address is the dotted quad of \<^verbatim>\<open>ip>>24\<close>, \<^verbatim>\<open>(ip>>16)&0xFF\<close>, \<^verbatim>\<open>(ip>>8)&0xFF\<close> and
  \<^verbatim>\<open>ip&0xFF\<close>, in this order; the first component is a byte too, and the four bytes are
  those of \<open>ip\<close>, most significant first. \<^verbatim>\<open>0x0A0B0C0D\<close> decodes to 10.11.12.13, 0 to
  0.0.0.0 and \<^verbatim>\<open>0xFFFFFFFF\<close> to 255.255.255.255.
\<close>

theorem IPAddress_dotted_quad:
  assumes "0 \<le> ip" and "ip < 2 ^ 32"
  shows "IPAddress e (PInt ip) =
           Inr (PStr (str_int (ip div 2 ^ 24) @ ''.'' @ str_int (ip div 2 ^ 16 mod 256) @ ''.'' @
                      str_int (ip div 2 ^ 8 mod 256) @ ''.'' @ str_int (ip mod 256))) \<and>
         0 \<le> ip div 2 ^ 24 \<and> ip div 2 ^ 24 \<le> 255 \<and>
         ip = (ip div 2 ^ 24) * 2 ^ 24 + (ip div 2 ^ 16 mod 256) * 2 ^ 16 +
              (ip div 2 ^ 8 mod 256) * 2 ^ 8 + ip mod 256 \<and>
         IPAddress e (PInt 0x0A0B0C0D) = Inr (PStr ''10.11.12.13'') \<and>
         IPAddress e (PInt 0) = Inr (PStr ''0.0.0.0'') \<and>
         IPAddress e (PInt 0xFFFFFFFF) = Inr (PStr ''255.255.255.255'')"
proof -
  have "ip \<le> 4294967295" using assms by simp
  then have "ip div 16777216 \<le> 4294967295 div 16777216" by (rule zdiv_mono1) simp
  then have top: "0 \<le> ip div 2 ^ 24 \<and> ip div 2 ^ 24 \<le> 255"
    using assms by (simp add: pos_imp_zdiv_nonneg_iff)
  have d16: "ip div 65536 = ip div 256 div 256"
    using zdiv_zmult2_eq [of 256 ip 256] by simp
  have d24: "ip div 16777216 = ip div 65536 div 256"
    using zdiv_zmult2_eq [of 256 ip 65536] by simp
  have b0: "ip = ip div 256 * 256 + ip mod 256" by simp
  have b1: "ip div 256 = ip div 65536 * 256 + ip div 256 mod 256"
    unfolding d16 by simp
  have b2: "ip div 65536 = ip div 16777216 * 256 + ip div 65536 mod 256"
    unfolding d24 by simp
  have sum: "ip = (ip div 2 ^ 24) * 2 ^ 24 + (ip div 2 ^ 16 mod 256) * 2 ^ 16 +
              (ip div 2 ^ 8 mod 256) * 2 ^ 8 + ip mod 256"
    using bytes_assemble [OF b0 b1 b2] by simp
  have ex: "IPAddress e (PInt 0x0A0B0C0D) = Inr (PStr ''10.11.12.13'')"
    "IPAddress e (PInt 0) = Inr (PStr ''0.0.0.0'')"
    "IPAddress e (PInt 0xFFFFFFFF) = Inr (PStr ''255.255.255.255'')"
    by (simp_all add: IPAddress_PInt str_int_examples)
  have main: "IPAddress e (PInt ip) =
           Inr (PStr (str_int (ip div 2 ^ 24) @ ''.'' @ str_int (ip div 2 ^ 16 mod 256) @ ''.'' @
                      str_int (ip div 2 ^ 8 mod 256) @ ''.'' @ str_int (ip mod 256)))"
    by (simp add: IPAddress_PInt)
  from main top sum ex show ?thesis by blast
qed

theorem IPAddress_dotted_quad_witness:
  "(0::int) \<le> 0x0A0B0C0D \<and> (0x0A0B0C0D::int) < 2 ^ 32 \<and>
   IPAddress (sample_env []) (PInt 0x0A0B0C0D) = Inr (PStr ''10.11.12.13'')"
  using IPAddress_dotted_quad [of "0x0A0B0C0D" "sample_env []"]
  by (simp add: str_int_def str_nat.simps digit_char_def)

section \<open>Rounding to a double\<close>

text \<open>Powers of two, and the two properties of the exponent.\<close>

lemma pow2_powi: "pow2 e = 2 powi e"
  by (simp add: pow2_def power_int_def field_simps)

lemma pow2_pos [simp]: "0 < pow2 e"
  by (simp add: pow2_powi)

lemma pow2_add: "pow2 (a + b) = pow2 a * pow2 b"
  by (simp add: pow2_powi power_int_add)

lemma pow2_mono: "a \<le> b \<Longrightarrow> pow2 a \<le> pow2 b"
  by (simp add: pow2_powi power_int_increasing)

lemma pow2_strict_mono: "a < b \<Longrightarrow> pow2 a < pow2 b"
  by (simp add: pow2_powi power_int_strict_increasing)

lemma pow2_nat: "pow2 (int n) = 2 ^ n"
  by (simp add: pow2_def)

lemma pow2_Suc: "pow2 (e + 1) = 2 * pow2 e"
proof -
  have "pow2 1 = 2" by (simp add: pow2_def)
  then show ?thesis by (simp add: pow2_add)
qed

text \<open>Rounding to the nearest integer is off by a half at most, and keeps an integer.\<close>

lemma round_half_even_error: "\<bar>of_int (round_half_even z) - z\<bar> \<le> 1 / 2"
proof -
  define t where "t = z - of_int \<lfloor>z\<rfloor>"
  have t: "0 \<le> t" "t < 1" unfolding t_def by linarith+
  have z: "z = of_int \<lfloor>z\<rfloor> + t" by (simp add: t_def)
  have r: "of_int (round_half_even z) - z = (if t < 1 / 2 then - t
      else if 1 / 2 < t then 1 - t else if even \<lfloor>z\<rfloor> then - t else 1 - t)"
    unfolding round_half_even_def Let_def t_def [symmetric] by (simp add: t_def)
  show ?thesis unfolding r using t by (simp add: abs_if)
qed

lemma round_half_even_of_int [simp]: "round_half_even (of_int n) = n"
  by (simp add: round_half_even_def)

lemma exponent_bracket:
  assumes "x \<noteq> 0"
  shows "pow2 (exponent x) \<le> \<bar>x\<bar>" and "\<bar>x\<bar> < pow2 (exponent x + 1)"
proof -
  obtain a b where q: "quotient_of \<bar>x\<bar> = (a, b)" by (cases "quotient_of \<bar>x\<bar>")
  then have b: "0 < b" and x: "\<bar>x\<bar> = of_int a / of_int b"
    using quotient_of_denom_pos [OF q] quotient_of_div [OF q] by simp_all
  have a: "0 < a"
  proof (rule ccontr)
    assume "\<not> 0 < a"
    then have "of_int a / (of_int b :: rat) \<le> 0" using b by (simp add: divide_nonpos_pos)
    then show False using x assms by simp
  qed
  define e0 where "e0 = bitlen a - bitlen b"
  have la: "2 ^ nat (bitlen a - 1) \<le> a" "a < 2 ^ nat (bitlen a)"
    using bitlen_bounds [OF a] by simp_all
  have lb: "2 ^ nat (bitlen b - 1) \<le> b" "b < 2 ^ nat (bitlen b)"
    using bitlen_bounds [OF b] by simp_all
  have pa: "1 \<le> bitlen a" "1 \<le> bitlen b" using a b by (simp_all add: bitlen_def floorlog_def)
  have ra: "pow2 (bitlen a - 1) \<le> of_int a" "of_int a < pow2 (bitlen a)"
  proof -
    have "(of_int (2 ^ nat (bitlen a - 1)) :: rat) \<le> of_int a" using la(1) by (simp only: of_int_le_iff)
    then show "pow2 (bitlen a - 1) \<le> of_int a" using pa by (simp add: pow2_def)
    have "(of_int a :: rat) < of_int (2 ^ nat (bitlen a))" using la(2) by (simp only: of_int_less_iff)
    then show "of_int a < pow2 (bitlen a)" using pa by (simp add: pow2_def)
  qed
  have rb: "pow2 (bitlen b - 1) \<le> of_int b" "of_int b < pow2 (bitlen b)"
  proof -
    have "(of_int (2 ^ nat (bitlen b - 1)) :: rat) \<le> of_int b" using lb(1) by (simp only: of_int_le_iff)
    then show "pow2 (bitlen b - 1) \<le> of_int b" using pa by (simp add: pow2_def)
    have "(of_int b :: rat) < of_int (2 ^ nat (bitlen b))" using lb(2) by (simp only: of_int_less_iff)
    then show "of_int b < pow2 (bitlen b)" using pa by (simp add: pow2_def)
  qed
  have bpos: "(0::rat) < of_int b" using b by simp
  have lo: "pow2 (e0 - 1) < \<bar>x\<bar>"
  proof -
    have "pow2 (e0 - 1) * pow2 (bitlen b) = pow2 (bitlen a - 1)"
      by (simp add: e0_def pow2_add [symmetric])
    moreover have "pow2 (e0 - 1) * of_int b < pow2 (e0 - 1) * pow2 (bitlen b)"
      using rb(2) by (simp add: mult_strict_left_mono)
    ultimately have "pow2 (e0 - 1) * of_int b < of_int a"
      using ra(1) by linarith
    then show ?thesis using bpos by (simp add: x pos_less_divide_eq)
  qed
  have hi: "\<bar>x\<bar> < pow2 (e0 + 1)"
  proof -
    have "pow2 (e0 + 1) * pow2 (bitlen b - 1) = pow2 (bitlen a)"
      by (simp add: e0_def pow2_add [symmetric])
    moreover have "pow2 (e0 + 1) * pow2 (bitlen b - 1) \<le> pow2 (e0 + 1) * of_int b"
      using rb(1) by (simp add: mult_left_mono)
    ultimately have "of_int a < pow2 (e0 + 1) * of_int b"
      using ra(2) by linarith
    then show ?thesis using bpos by (simp add: x pos_divide_less_eq)
  qed
  have ex: "exponent x = (if pow2 e0 \<le> \<bar>x\<bar> then e0 else e0 - 1)"
    by (simp add: exponent_def q e0_def)
  show "pow2 (exponent x) \<le> \<bar>x\<bar>" using lo by (simp add: ex)
  show "\<bar>x\<bar> < pow2 (exponent x + 1)" using hi by (auto simp add: ex)
qed

lemma exponent_unique:
  assumes "pow2 e \<le> \<bar>x\<bar>" and "\<bar>x\<bar> < pow2 (e + 1)"
  shows "exponent x = e"
proof -
  have "x \<noteq> 0"
  proof
    assume "x = 0"
    with assms(1) have "pow2 e \<le> 0" by simp
    with pow2_pos [of e] show False by linarith
  qed
  note b = exponent_bracket [OF this]
  have "pow2 (exponent x) < pow2 (e + 1)" using b(1) assms(2) by linarith
  then have 1: "exponent x < e + 1"
    using pow2_mono [of "e + 1" "exponent x"] by (cases "exponent x < e + 1") auto
  have "pow2 e < pow2 (exponent x + 1)" using b(2) assms(1) by linarith
  then have 2: "e < exponent x + 1"
    using pow2_mono [of "exponent x + 1" e] by (cases "e < exponent x + 1") auto
  from 1 2 show ?thesis by simp
qed

lemma round_double_eq:
  assumes "pow2 e \<le> \<bar>x\<bar>" and "\<bar>x\<bar> < pow2 (e + 1)"
  shows "round_double x = of_int (round_half_even (x / pow2 (e - 52))) * pow2 (e - 52)"
proof -
  have "x \<noteq> 0"
  proof
    assume "x = 0"
    with assms(1) have "pow2 e \<le> 0" by simp
    with pow2_pos [of e] show False by linarith
  qed
  then show ?thesis by (simp add: round_double_def Let_def exponent_unique [OF assms])
qed

text \<open>
  Rounding to a double changes a number by \<open>2\<^sup>-\<^sup>5\<^sup>3\<close> of its magnitude at most, and keeps
  every integer below \<open>2\<^sup>5\<^sup>3\<close> in magnitude.
\<close>

lemma round_double_error: "\<bar>round_double x - x\<bar> \<le> \<bar>x\<bar> / 2 ^ 53"
proof (cases "x = 0")
  case True
  then show ?thesis by (simp add: round_double_def)
next
  case False
  define ulp where "ulp = pow2 (exponent x - 52)"
  define n where "n = round_half_even (x / ulp)"
  have ulp: "0 < ulp" by (simp add: ulp_def)
  have r: "round_double x = of_int n * ulp"
    using False by (simp add: round_double_def Let_def ulp_def n_def)
  have "\<bar>of_int n - x / ulp\<bar> \<le> 1 / 2" unfolding n_def by (rule round_half_even_error)
  then have "\<bar>of_int n - x / ulp\<bar> * ulp \<le> 1 / 2 * ulp"
    using ulp by (simp only: mult_le_cancel_right_pos)
  moreover have "\<bar>of_int n - x / ulp\<bar> * ulp = \<bar>of_int n * ulp - x\<bar>"
  proof -
    have "\<bar>of_int n - x / ulp\<bar> * ulp = \<bar>(of_int n - x / ulp) * ulp\<bar>"
      using ulp by (simp add: abs_mult)
    also have "(of_int n - x / ulp) * ulp = of_int n * ulp - x"
      using ulp by (simp add: field_simps)
    finally show ?thesis .
  qed
  ultimately have e: "\<bar>round_double x - x\<bar> \<le> ulp / 2" by (simp add: r)
  have "pow2 (exponent x) = pow2 (exponent x - 52) * pow2 52"
    by (simp add: pow2_add [symmetric])
  then have "pow2 (exponent x) = ulp * 2 ^ 52" by (simp add: ulp_def pow2_def)
  then have "ulp * 2 ^ 52 \<le> \<bar>x\<bar>" using exponent_bracket(1) [OF False] by simp
  then have "ulp / 2 \<le> \<bar>x\<bar> / 2 ^ 53" by simp
  with e show ?thesis by linarith
qed

lemma round_double_of_int:
  assumes "\<bar>n\<bar> < 2 ^ 53"
  shows "round_double (of_int n) = of_int n"
proof (cases "n = 0")
  case True
  then show ?thesis by (simp add: round_double_def)
next
  case False
  then have nz: "(of_int n :: rat) \<noteq> 0" by simp
  define E where "E = exponent (of_int n)"
  have "pow2 E \<le> \<bar>of_int n\<bar>" unfolding E_def by (rule exponent_bracket(1) [OF nz])
  moreover have "\<bar>of_int n :: rat\<bar> < pow2 53"
  proof -
    have "(of_int \<bar>n\<bar> :: rat) < of_int (2 ^ 53)" using assms by (simp only: of_int_less_iff)
    then show ?thesis by (simp add: pow2_def)
  qed
  ultimately have "pow2 E < pow2 53" by linarith
  then have E: "E < 53" using pow2_mono [of 53 E] by (cases "E < 53") auto
  define k where "k = nat (52 - E)"
  have ulp: "pow2 (E - 52) = 1 / 2 ^ k"
    using E by (cases "E = 52") (simp_all add: pow2_def k_def)
  have "of_int n / pow2 (E - 52) = (of_int (n * 2 ^ k) :: rat)" by (simp add: ulp)
  then have "round_half_even (of_int n / pow2 (E - 52)) = n * 2 ^ k"
    by (simp only: round_half_even_of_int)
  then show ?thesis using nz by (simp add: round_double_def Let_def E_def [symmetric] ulp)
qed

section \<open>The rain delay encode\<close>

text \<open>
  For a difference of less than 50000 days, the two rounded quotients end less than one
  microsecond, as a part of a minute, away from the exact number of minutes; so dropping
  the fraction gives the integer division of the microseconds by 60 million that rounds
  towards zero.
\<close>

lemma minutes_close:
  assumes "\<bar>d\<bar> < 4320000000000000"
  shows "\<bar>true_divide (total_seconds d) 60 - of_int d / 60000000\<bar> < 1 / 60000000"
proof -
  define X :: rat where "X = of_int d / 1000000"
  define x where "x = round_double X"
  define y where "y = round_double (x / 60)"
  define a where "a = \<bar>X\<bar>"
  define B where "B = \<bar>y - x / 60\<bar>"
  define C where "C = \<bar>x - X\<bar>"
  define D where "D = \<bar>x / 60\<bar>"
  have p: "(2::rat) ^ 53 = 9007199254740992" by simp
  have "(of_int \<bar>d\<bar> :: rat) < of_int 4320000000000000"
    using assms by (simp only: of_int_less_iff)
  then have a: "0 \<le> a" "a < 4320000000" by (simp_all add: a_def X_def)
  have e1: "C \<le> a / 9007199254740992"
    unfolding C_def x_def a_def p [symmetric] by (rule round_double_error)
  then have "\<bar>x\<bar> \<le> a + a / 9007199254740992" unfolding a_def C_def by linarith
  then have "\<bar>x\<bar> / 60 \<le> (a + a / 9007199254740992) / 60" by simp
  then have xa: "D \<le> (a + a / 9007199254740992) / 60" by (simp add: D_def)
  have "B \<le> D / 9007199254740992"
    unfolding B_def D_def y_def p [symmetric] by (rule round_double_error)
  then have e2: "B \<le> (a + a / 9007199254740992) / 60 / 9007199254740992"
    using xa by simp
  have "\<bar>x / 60 - X / 60\<bar> = \<bar>(x - X) / 60\<bar>" by (simp only: diff_divide_distrib)
  also have "\<dots> = C / 60" by (simp add: C_def)
  finally have c: "\<bar>x / 60 - X / 60\<bar> = C / 60" .
  define A where "A = \<bar>y - X / 60\<bar>"
  have "A \<le> B + \<bar>x / 60 - X / 60\<bar>" unfolding A_def B_def by linarith
  then have t: "A \<le> B + C / 60" by (simp only: c)
  have b1: "B \<le> a * (9007199254740993 / 4867778304876400901747340308643840)"
    using e2 by (simp add: field_simps)
  have c1: "C / 60 \<le> a * (1 / 540431955284459520)"
    using e1 by (simp add: field_simps)
  have "A \<le> a * (9007199254740993 / 4867778304876400901747340308643840 + 1 / 540431955284459520)"
    using t b1 c1 by (simp add: distrib_left)
  also have "\<dots> < 1 / 60000000" using a by simp
  finally have "A < 1 / 60000000" .
  then show ?thesis by (simp add: A_def y_def x_def X_def total_seconds_def true_divide_def)
qed

lemma int_of_rat_of_int [simp]: "int_of_rat (of_int k) = k"
  by (simp add: int_of_rat_def)

lemma minutes_exact:
  assumes "\<bar>d\<bar> < 4320000000000000"
  shows "int_of_rat (true_divide (total_seconds d) 60) = sgn d * (\<bar>d\<bar> div 60000000)"
proof -
  define y where "y = true_divide (total_seconds d) 60"
  have close: "\<bar>y - of_int d / 60000000\<bar> < 1 / 60000000"
    unfolding y_def by (rule minutes_close [OF assms])
  consider (multiple) "d mod 60000000 = 0" | (pos) "d mod 60000000 \<noteq> 0" "0 < d"
    | (neg) "d mod 60000000 \<noteq> 0" "d < 0"
    by (cases "d mod 60000000 = 0"; cases "0 < d"; cases "d = 0") auto
  then show ?thesis
  proof cases
    case multiple
    then obtain k where k: "d = 60000000 * k" by auto
    have "\<bar>60 * k\<bar> < 2 ^ 53" using assms by (simp add: k abs_mult)
    then have "round_double (of_int (60 * k)) = of_int (60 * k)" by (rule round_double_of_int)
    moreover have "(of_int d :: rat) / 1000000 = of_int (60 * k)" by (simp add: k)
    ultimately have ts: "total_seconds d = of_int (60 * k)"
      by (simp only: total_seconds_def true_divide_def of_int_numeral)
    have "\<bar>k\<bar> < 2 ^ 53" using assms by (simp add: k abs_mult)
    then have "round_double (of_int k) = of_int k" by (rule round_double_of_int)
    then have "true_divide (total_seconds d) 60 = of_int k" by (simp add: ts true_divide_def)
    moreover have "sgn d * (\<bar>d\<bar> div 60000000) = k"
      by (simp add: k abs_mult sgn_mult mult_sgn_abs)
    ultimately show ?thesis by simp
  next
    case pos
    define k where "k = d div 60000000"
    define r where "r = d mod 60000000"
    have r: "1 \<le> r" "r \<le> 59999999"
      using pos(1) pos_mod_bound [of 60000000 d] pos_mod_sign [of 60000000 d]
      by (simp_all add: r_def)
    have d: "d = 60000000 * k + r" by (simp add: k_def r_def)
    have k0: "0 \<le> k" using pos(2) by (simp add: k_def pos_imp_zdiv_nonneg_iff)
    have q: "(of_int d :: rat) / 60000000 = of_int k + of_int r / 60000000" by (simp add: d)
    define \<rho> :: rat where "\<rho> = of_int r / 60000000"
    have "(of_int 1 :: rat) \<le> of_int r" "(of_int r :: rat) \<le> of_int 59999999"
      using r by (simp_all only: of_int_le_iff)
    then have rho: "1 / 60000000 \<le> \<rho>" "\<rho> \<le> 59999999 / 60000000"
      by (simp_all add: \<rho>_def)
    have "\<bar>y - (of_int k + \<rho>)\<bar> < 1 / 60000000"
      using close unfolding q \<rho>_def .
    then have "of_int k < y" "y < of_int k + 1" using rho by linarith+
    then have "\<lfloor>y\<rfloor> = k" "0 \<le> y" using k0 by (simp_all add: floor_unique)
    then have "int_of_rat y = k" by (simp add: int_of_rat_def)
    moreover have "sgn d * (\<bar>d\<bar> div 60000000) = k" using pos(2) by (simp add: k_def)
    ultimately show ?thesis by (simp add: y_def)
  next
    case neg
    define k where "k = (- d) div 60000000"
    define r where "r = (- d) mod 60000000"
    have "(- d) mod 60000000 \<noteq> 0" using neg(1) by (simp add: mod_minus_eq zmod_zminus1_not_zero)
    then have r: "1 \<le> r" "r \<le> 59999999"
      using pos_mod_bound [of 60000000 "- d"] pos_mod_sign [of 60000000 "- d"]
      by (simp_all add: r_def)
    have "- d = 60000000 * k + r" by (simp add: k_def r_def)
    then have d: "d = - (60000000 * k + r)" by simp
    have k0: "0 \<le> k" using neg(2) by (simp add: k_def pos_imp_zdiv_nonneg_iff)
    have q: "(of_int d :: rat) / 60000000 = - of_int k - of_int r / 60000000" by (simp add: d)
    define \<rho> :: rat where "\<rho> = of_int r / 60000000"
    have "(of_int 1 :: rat) \<le> of_int r" "(of_int r :: rat) \<le> of_int 59999999"
      using r by (simp_all only: of_int_le_iff)
    then have rho: "1 / 60000000 \<le> \<rho>" "\<rho> \<le> 59999999 / 60000000"
      by (simp_all add: \<rho>_def)
    have "\<bar>y - (- of_int k - \<rho>)\<bar> < 1 / 60000000"
      using close unfolding q \<rho>_def .
    then have "- of_int k - 1 < y" "y < - of_int k" using rho by linarith+
    then have "of_int (- k) - 1 < y" "y < of_int (- k)" by simp_all
    then have "\<lceil>y\<rceil> = - k" "y < 0" using k0 by (simp_all add: ceiling_unique)
    then have "int_of_rat y = - k" by (simp add: int_of_rat_def)
    moreover have "sgn d * (\<bar>d\<bar> div 60000000) = - k" using neg(2) by (simp add: k_def)
    ultimately show ?thesis by (simp add: y_def)
  qed
qed

lemma RainDelaySet_PDateTime:
  "RainDelaySet e (PDateTime dt)
     = Inr (PInt (int_of_rat (true_divide (total_seconds (dt - now e)) 60)))"
  by (simp add: RainDelaySet_def)

lemma RainDelaySet_exact:
  assumes "\<bar>dt - now e\<bar> < 50000 * day_us"
  shows "RainDelaySet e (PDateTime dt)
           = Inr (PInt (sgn (dt - now e) * (\<bar>dt - now e\<bar> div 60000000)))"
proof -
  have "\<bar>dt - now e\<bar> < 4320000000000000" using assms by (simp add: day_us_def)
  then show ?thesis by (simp only: RainDelaySet_PDateTime minutes_exact)
qed

text \<open>
  C5, as amended: the encode of the rain delay maps \<^verbatim>\<open>None\<close> (and 0) to 0, and a
  date-time \<open>dt\<close> less than 50000 days (about 136 years) away from the clock to the
  minutes from now to \<open>dt\<close>, the seconds divided by 60 and rounded towards zero. A time
  exactly 90 minutes ahead of the clock encodes to 90, one microsecond less to 89, and a
  time 90 seconds in the past to \<open>-1\<close>. Farther away the result is what the two
  floating-point quotients give, which can be the next minute.
\<close>

theorem RainDelaySet_minutes:
  "RainDelaySet e PNone = Inr (PInt 0) \<and>
   RainDelaySet e (PInt 0) = Inr (PInt 0) \<and>
   (\<bar>dt - now e\<bar> < 50000 * day_us \<longrightarrow>
      RainDelaySet e (PDateTime dt)
        = Inr (PInt (sgn (dt - now e) * (\<bar>dt - now e\<bar> div 60000000)))) \<and>
   RainDelaySet e (PDateTime (now e + 90 * minute_us)) = Inr (PInt 90) \<and>
   RainDelaySet e (PDateTime (now e + 90 * minute_us - 1)) = Inr (PInt 89) \<and>
   RainDelaySet e (PDateTime (now e - 90 * 1000000)) = Inr (PInt (- 1))"
proof -
  have a: "RainDelaySet e PNone = Inr (PInt 0)" "RainDelaySet e (PInt 0) = Inr (PInt 0)"
    by (simp_all add: RainDelaySet_def)
  have b: "\<bar>dt - now e\<bar> < 50000 * day_us \<longrightarrow>
      RainDelaySet e (PDateTime dt)
        = Inr (PInt (sgn (dt - now e) * (\<bar>dt - now e\<bar> div 60000000)))"
    using RainDelaySet_exact by blast
  have c: "RainDelaySet e (PDateTime (now e + 90 * minute_us)) = Inr (PInt 90)"
    by (subst RainDelaySet_exact) (simp_all add: day_us_def minute_us_def)
  have d: "RainDelaySet e (PDateTime (now e + 90 * minute_us - 1)) = Inr (PInt 89)"
    by (subst RainDelaySet_exact) (simp_all add: day_us_def minute_us_def)
  have f: "RainDelaySet e (PDateTime (now e - 90 * 1000000)) = Inr (PInt (- 1))"
    by (subst RainDelaySet_exact) (simp_all add: day_us_def)
  from a b c d f show ?thesis by blast
qed

theorem RainDelaySet_minutes_witness:
  "\<bar>(sample_noon + 90 * minute_us) - now ((sample_env [])\<lparr>now := sample_noon\<rparr>)\<bar> < 50000 * day_us \<and>
   RainDelaySet ((sample_env [])\<lparr>now := sample_noon\<rparr>) (PDateTime (sample_noon + 90 * minute_us))
     = Inr (PInt 90)"
  using RainDelaySet_minutes [of "(sample_env [])\<lparr>now := sample_noon\<rparr>" "sample_noon + 90 * minute_us"]
  by (simp add: day_us_def minute_us_def)

text \<open>
  C5 as stated fails for a time 94639190399999999 microseconds (about 3000 years) ahead
  of noon of 2026-11-05, both date-times of Python: the seconds round to 94639190400,
  and the result is 1577319840, where the division that rounds towards zero gives
  1577319839.
\<close>

theorem RainDelaySet_rounds_up_counterexample:
  "valid_datetime sample_noon \<and>
   valid_datetime (sample_noon + 94639190399999999) \<and>
   RainDelaySet ((sample_env [])\<lparr>now := sample_noon\<rparr>)
       (PDateTime (sample_noon + 94639190399999999))
     = Inr (PInt 1577319840) \<and>
   sgn (94639190399999999 :: int) * (\<bar>94639190399999999\<bar> div 60000000) = 1577319839"
proof -
  have v: "valid_datetime sample_noon" "valid_datetime (sample_noon + 94639190399999999)"
    by (simp_all add: valid_datetime_def sample_noon_def datetime_end_def day_us_def)
  have core: "int_of_rat (true_divide (total_seconds 94639190399999999) 60) = 1577319840"
    by code_simp
  have r: "RainDelaySet ((sample_env [])\<lparr>now := sample_noon\<rparr>)
       (PDateTime (sample_noon + 94639190399999999))
     = Inr (PInt 1577319840)"
    by (simp add: RainDelaySet_PDateTime core)
  have t: "sgn (94639190399999999 :: int) * (\<bar>94639190399999999\<bar> div 60000000) = 1577319839"
    by simp
  from v r t show ?thesis by blast
qed

section \<open>The sunrise and sunset decode\<close>

lemma replace_midnight_bounds:
  "replace_midnight t mod day_us = 0" "replace_midnight t \<le> t" "t < replace_midnight t + day_us"
  by (simp_all add: replace_midnight_def day_us_def minus_mod_eq_mult_div)

lemma SunTime_PInt:
  assumes "N \<noteq> 0"
  shows "SunTime e (PInt N) =
          (if valid_datetime (replace_midnight (now e) + day_us) \<and>
              - 999999999 \<le> N * minute_us div day_us \<and> N * minute_us div day_us \<le> 999999999 \<and>
              valid_datetime (replace_midnight (now e) + day_us - N * minute_us)
           then Inr (PDateTime (replace_midnight (now e) + day_us - N * minute_us))
           else Inl OverflowError)"
proof -
  have one: "timedelta day_us = Inr day_us" by (simp add: timedelta_def day_us_def)
  show ?thesis
    using assms
    by (simp add: SunTime_def eq_int_def Let_def one datetime_add_def
        timedelta_def [of "N * minute_us"])
qed

lemma SunTime_in_range:
  assumes "valid_datetime (now e)" and "now e < datetime_end - day_us"
    and "1 \<le> N" and "N \<le> 1440"
  shows "SunTime e (PInt N) = Inr (PDateTime (replace_midnight (now e) + day_us - N * minute_us))"
proof -
  define m where "m = replace_midnight (now e)"
  have m: "m \<le> now e" "now e < m + day_us" "m mod day_us = 0"
    unfolding m_def by (simp_all add: replace_midnight_bounds)
  have "0 \<le> now e div day_us" using assms(1) by (simp add: valid_datetime_def day_us_def pos_imp_zdiv_nonneg_iff)
  moreover have "m = now e div day_us * day_us" by (simp add: m_def replace_midnight_def minus_mod_eq_div_mult)
  ultimately have m0: "0 \<le> m" by (simp add: day_us_def)
  have v1: "valid_datetime (m + day_us)"
    using m m0 assms(2) by (simp add: valid_datetime_def day_us_def)
  have nm: "60000000 \<le> N * minute_us" "N * minute_us \<le> 86400000000"
    using assms(3,4) by (simp_all add: minute_us_def)
  have v2: "valid_datetime (m + day_us - N * minute_us)"
    using m m0 assms(2) nm by (simp add: valid_datetime_def day_us_def)
  have "N * minute_us div 86400000000 \<le> 86400000000 div 86400000000"
    using nm(2) by (rule zdiv_mono1) simp
  then have "0 \<le> N * minute_us div day_us" "N * minute_us div day_us \<le> 1"
    using nm(1) by (simp_all add: day_us_def pos_imp_zdiv_nonneg_iff)
  then have td: "- 999999999 \<le> N * minute_us div day_us \<and> N * minute_us div day_us \<le> 999999999"
    by linarith
  have "N \<noteq> 0" using assms(3) by simp
  then show ?thesis using v1 v2 td by (simp add: SunTime_PInt m_def)
qed

text \<open>
  C6, as amended: the decode of sunrise and sunset maps 0 to \<^verbatim>\<open>None\<close>. For every other
  number \<open>N\<close> of minutes it gives today's midnight plus 24 hours minus \<open>N\<close> minutes when
  tomorrow's midnight and that time are date-times of the years 1 to 9999 and \<open>N\<close>
  minutes are a \<^verbatim>\<open>timedelta\<close> (at most 999999999 days in magnitude), and raises
  \<^verbatim>\<open>OverflowError\<close> otherwise. The first is so for every \<open>N\<close> from 1 to 1440 on any day
  but the last of the year 9999; 360 gives the time 6 hours before the next midnight.
  Today's midnight is the start of a day, not after the clock and less than a day
  before it.
\<close>

theorem SunTime_decode:
  "SunTime e (PInt 0) = Inr PNone \<and>
   (N \<noteq> 0 \<longrightarrow>
      SunTime e (PInt N) =
        (if valid_datetime (replace_midnight (now e) + day_us) \<and>
            - 999999999 \<le> N * minute_us div day_us \<and> N * minute_us div day_us \<le> 999999999 \<and>
            valid_datetime (replace_midnight (now e) + 24 * 3600000000 - N * 60000000)
         then Inr (PDateTime (replace_midnight (now e) + 24 * 3600000000 - N * 60000000))
         else Inl OverflowError)) \<and>
   (valid_datetime (now e) \<and> now e < datetime_end - day_us \<and> 1 \<le> N \<and> N \<le> 1440 \<longrightarrow>
      SunTime e (PInt N) =
        Inr (PDateTime (replace_midnight (now e) + 24 * 3600000000 - N * 60000000))) \<and>
   (valid_datetime (now e) \<and> now e < datetime_end - day_us \<longrightarrow>
      SunTime e (PInt 360) =
        Inr (PDateTime (replace_midnight (now e) + day_us - 6 * 3600000000))) \<and>
   replace_midnight (now e) mod day_us = 0 \<and>
   replace_midnight (now e) \<le> now e \<and> now e < replace_midnight (now e) + day_us"
proof -
  have a: "SunTime e (PInt 0) = Inr PNone" by (simp add: SunTime_def eq_int_def)
  have b: "N \<noteq> 0 \<longrightarrow>
      SunTime e (PInt N) =
        (if valid_datetime (replace_midnight (now e) + day_us) \<and>
            - 999999999 \<le> N * minute_us div day_us \<and> N * minute_us div day_us \<le> 999999999 \<and>
            valid_datetime (replace_midnight (now e) + 24 * 3600000000 - N * 60000000)
         then Inr (PDateTime (replace_midnight (now e) + 24 * 3600000000 - N * 60000000))
         else Inl OverflowError)"
    using SunTime_PInt [of N e] by (simp add: day_us_def minute_us_def)
  have c: "valid_datetime (now e) \<and> now e < datetime_end - day_us \<and> 1 \<le> N \<and> N \<le> 1440 \<longrightarrow>
      SunTime e (PInt N) =
        Inr (PDateTime (replace_midnight (now e) + 24 * 3600000000 - N * 60000000))"
    using SunTime_in_range [of e N] by (simp add: day_us_def minute_us_def)
  have d: "valid_datetime (now e) \<and> now e < datetime_end - day_us \<longrightarrow>
      SunTime e (PInt 360) =
        Inr (PDateTime (replace_midnight (now e) + day_us - 6 * 3600000000))"
    using SunTime_in_range [of e 360] by (simp add: day_us_def minute_us_def)
  from a b c d replace_midnight_bounds [of "now e"] show ?thesis by blast
qed

theorem SunTime_decode_witness:
  "valid_datetime (now ((sample_env [])\<lparr>now := sample_noon\<rparr>)) \<and>
   now ((sample_env [])\<lparr>now := sample_noon\<rparr>) < datetime_end - day_us \<and>
   (1::int) \<le> 360 \<and> (360::int) \<le> 1440 \<and> (360::int) \<noteq> 0 \<and>
   replace_midnight sample_noon + day_us = 739925 * day_us \<and>
   SunTime ((sample_env [])\<lparr>now := sample_noon\<rparr>) (PInt 360)
     = Inr (PDateTime (739925 * day_us - 6 * 3600000000))"
  using SunTime_decode [of "(sample_env [])\<lparr>now := sample_noon\<rparr>" 360]
  by (simp add: valid_datetime_def datetime_end_def sample_noon_def day_us_def minute_us_def
      replace_midnight_def)

text \<open>
  C6 as stated fails for \<open>N = 10\<^sup>1\<^sup>2\<close> with the clock at noon of 2026-11-05: the result
  would be before the year 1, and the subtraction raises \<^verbatim>\<open>OverflowError\<close>.
\<close>

theorem SunTime_overflow_counterexample:
  "valid_datetime sample_noon \<and>
   SunTime ((sample_env [])\<lparr>now := sample_noon\<rparr>) (PInt 1000000000000) = Inl OverflowError"
proof -
  have v: "valid_datetime sample_noon"
    by (simp add: valid_datetime_def sample_noon_def datetime_end_def day_us_def)
  have n: "(1000000000000::int) \<noteq> 0" by simp
  have s: "SunTime ((sample_env [])\<lparr>now := sample_noon\<rparr>) (PInt 1000000000000) = Inl OverflowError"
    by (simp add: SunTime_PInt [OF n] valid_datetime_def datetime_end_def sample_noon_def
        day_us_def minute_us_def replace_midnight_def)
  from v s show ?thesis by blast
qed

section \<open>The methods of the controller on the registries of the class\<close>

text \<open>
  With the registries of the class in sight and an \<^verbatim>\<open>OpenSprinkler\<close> as parent, the two
  methods are the look-up in the registry, one request and the transform.
\<close>

lemma registry_keys_class:
  assumes "registries_of_class self"
  shows "registry_keys self ''my_get_args'' cls = Inr (map fst cls)"
    and "registry_keys self ''my_set_args'' cls = Inr (map fst cls)"
  using assms by (simp_all add: registries_of_class_def registry_keys_def)

lemma registry_item_class:
  assumes "registries_of_class self" and "map_of cls name = Some d"
  shows "registry_item self ''my_get_args'' cls name = Inr d"
    and "registry_item self ''my_set_args'' cls name = Inr d"
  using assms by (simp_all add: registries_of_class_def registry_item_def)

lemma parent_json_get_bound:
  assumes "has_parent self p"
  shows "parent_json_get e sent self path vars = json_get e sent p path vars"
  using assms by (simp add: has_parent_def parent_json_get_def self_parent_def)

lemma key_of_entry: "map_of cls name = Some d \<Longrightarrow> name \<in> set (map fst cls)"
  by (force dest: map_of_SomeD)

lemma getattr_registered:
  assumes "registries_of_class self" and "has_parent self p"
    and "map_of my_get_args name = Some d"
  shows "Controller_getattr e sent self name =
           (case json_get e sent p ''jc'' None of
              (sent', Inl x) \<Rightarrow> (sent', Inl x)
            | (sent', Inr data) \<Rightarrow> (sent', getAsType e d data))"
proof -
  have "name \<in> set (map fst my_get_args)" using assms(3) by (rule key_of_entry)
  then show ?thesis
    using assms
    by (simp add: Controller_getattr_def registry_keys_class registry_item_class
        parent_json_get_bound split: prod.splits sum.splits)
qed

lemma getattr_unregistered:
  assumes "registries_of_class self" and "name \<notin> set (map fst my_get_args)"
  shows "Controller_getattr e sent self name = (sent, Inr PNone)"
  using assms by (simp add: Controller_getattr_def registry_keys_class)

lemma setattr_registered:
  assumes "registries_of_class self" and "map_of my_set_args name = Some d"
  shows "Controller_setattr e sent self name v =
           (case setAsType e d [] of
              Inl x \<Rightarrow> (sent, self, Inl x)
            | Inr data \<Rightarrow>
                (case parent_json_get e sent self ''cv'' (Some data) of
                   (sent', Inl x) \<Rightarrow> (sent', self, Inl x)
                 | (sent', Inr r) \<Rightarrow> (sent', self, Inr ())))"
proof -
  have "name \<in> set (map fst my_set_args)" using assms(2) by (rule key_of_entry)
  then show ?thesis
    using assms
    by (simp add: Controller_setattr_def registry_keys_class registry_item_class)
qed

lemma setattr_unregistered:
  assumes "registries_of_class self" and "name \<notin> set (map fst my_set_args)"
  shows "Controller_setattr e sent self name v =
           (case object_setattr self name v of
              Inl x \<Rightarrow> (sent, self, Inl x)
            | Inr self' \<Rightarrow> (sent, self', Inr ()))"
  using assms by (simp add: Controller_setattr_def registry_keys_class)

lemma object_setattr_ordinary:
  assumes "ordinary_name name"
  shows "object_setattr self name v = Inr (self\<lparr>attrs := dict_set (attrs self) name v\<rparr>)"
  using assms by (simp add: ordinary_name_def object_setattr_def)

lemma map_of_dict_set:
  "map_of (dict_set d k v) k' = (if k' = k then Some v else map_of d k')"
  by (induction d) auto

lemma sample_controller_ok:
  "registries_of_class sample_controller" "has_parent sample_controller sample_sprinkler"
  "set_names_unbound sample_controller"
  by (simp_all add: registries_of_class_def has_parent_def sample_controller_def
      set_names_unbound_def my_set_args_def)

lemma json_get_answers:
  assumes "answers e sent (request_url e p path vars) doc"
  shows "json_get e sent p path vars =
          (sent @ [request_url e p path vars],
           case map_of doc ''result'' of
             None \<Rightarrow> Inr doc
           | Some res \<Rightarrow>
               if \<not> eq_int res STATUS_SUCCESS
               then (case STATUS_CODES_getitem res of
                       Inl x \<Rightarrow> Inl x
                     | Inr msg \<Rightarrow> Inl (ValueError [PStr ''Failure response (%d):%s'', res, PStr msg]))
               else Inr doc)"
  using assms by (auto simp add: answers_def json_get_def Let_def split: sum.splits)

section \<open>Reading a field\<close>

text \<open>Every call of \<^verbatim>\<open>_json_get\<close> sends exactly one request, whatever comes back.\<close>

lemma fst_json_get: "fst (json_get e sent p path vars) = sent @ [request_url e p path vars]"
  by (simp add: json_get_def Let_def split: sum.splits)

lemma fst_getattr_registered:
  assumes "registries_of_class self" and "has_parent self p"
    and "name \<in> set (map fst my_get_args)"
  shows "fst (Controller_getattr e sent self name) = sent @ [request_url e p ''jc'' None]"
proof -
  obtain d where "map_of my_get_args name = Some d"
    using assms(3) by (cases "map_of my_get_args name") (auto simp add: map_of_eq_None_iff)
  then have "Controller_getattr e sent self name =
           (case json_get e sent p ''jc'' None of
              (sent', Inl x) \<Rightarrow> (sent', Inl x)
            | (sent', Inr data) \<Rightarrow> (sent', getAsType e d data))"
    using assms(1,2) by (rule getattr_registered [rotated 2])
  then show ?thesis
    using fst_json_get [of e sent p "''jc''" None]
    by (auto split: prod.splits sum.splits)
qed

text \<open>
  C8: for every registered name, when the document that \<^verbatim>\<open>_json_get\<close> returns for the
  status endpoint does not have the wire key of the descriptor, the read fails with the
  \<^verbatim>\<open>KeyError\<close> of that key, and returns no value.
\<close>

theorem getattr_missing_key:
  assumes "registries_of_class self" and "has_parent self p"
    and "map_of my_get_args name = Some d"
    and "json_get e sent p ''jc'' None = (sent', Inr data)"
    and "map_of data (tag d) = None"
  shows "Controller_getattr e sent self name = (sent', Inl (KeyError (PStr (tag d))))"
  using assms(4,5) by (simp add: getattr_registered [OF assms(1,2,3)] getAsType_def dict_get_def)

lemma sample_url:
  "request_url e sample_sprinkler path None
     = ''http://sprinkler.local/'' @ path @ ''/?pw=5f4dcc3b5aa765d61d8327deb882cf99''"
  by (simp add: request_url_def sample_sprinkler_def)

lemma sample_answers: "answers (sample_env doc) sent url doc"
  by (simp add: answers_def sample_env_def)

theorem getattr_missing_key_witness:
  "registries_of_class sample_controller \<and> has_parent sample_controller sample_sprinkler \<and>
   map_of my_get_args ''station_status'' = Some \<lparr>tag = ''sbits'', type = Stations\<rparr> \<and>
   json_get (sample_env [(''en'', PInt 1)]) [] sample_sprinkler ''jc'' None
     = ([''http://sprinkler.local/jc/?pw=5f4dcc3b5aa765d61d8327deb882cf99''], Inr [(''en'', PInt 1)]) \<and>
   map_of [(''en'', PInt 1)] (tag \<lparr>tag = ''sbits'', type = Stations\<rparr>) = None \<and>
   Controller_getattr (sample_env [(''en'', PInt 1)]) [] sample_controller ''station_status''
     = ([''http://sprinkler.local/jc/?pw=5f4dcc3b5aa765d61d8327deb882cf99''],
        Inl (KeyError (PStr ''sbits'')))"
proof -
  have d: "map_of my_get_args ''station_status'' = Some \<lparr>tag = ''sbits'', type = Stations\<rparr>"
    by (simp add: my_get_args_def)
  have j: "json_get (sample_env [(''en'', PInt 1)]) [] sample_sprinkler ''jc'' None
     = ([''http://sprinkler.local/jc/?pw=5f4dcc3b5aa765d61d8327deb882cf99''], Inr [(''en'', PInt 1)])"
    by (simp add: json_get_answers [OF sample_answers] sample_url)
  have k: "map_of [(''en'', PInt 1)] (tag \<lparr>tag = ''sbits'', type = Stations\<rparr>) = None"
    by simp
  show ?thesis
    using getattr_missing_key [OF sample_controller_ok(1,2) d j k] sample_controller_ok(1,2) d j k
    by simp
qed

section \<open>Names outside the registries\<close>

text \<open>
  C3, as amended: for every name absent from the Get registry, the read returns \<^verbatim>\<open>None\<close>,
  raises no error and sends no request; for every name absent from the Set registry
  (and not one of the three names that \<^verbatim>\<open>object\<close> handles itself), the assignment raises
  no error and sends no request: it stores the value as an instance attribute. The code
  has no error for a name that is not found.
\<close>

theorem unknown_name_no_error:
  assumes "registries_of_class self"
  shows "(name \<notin> set (map fst my_get_args) \<longrightarrow>
            Controller_getattr e sent self name = (sent, Inr PNone)) \<and>
         (name \<notin> set (map fst my_set_args) \<and> ordinary_name name \<longrightarrow>
            Controller_setattr e sent self name v
              = (sent, self\<lparr>attrs := dict_set (attrs self) name v\<rparr>, Inr ()))"
  using assms
  by (simp add: getattr_unregistered setattr_unregistered object_setattr_ordinary)

theorem unknown_name_no_error_witness:
  "registries_of_class sample_controller \<and>
   ''flow_rate'' \<notin> set (map fst my_get_args) \<and>
   ''flow_rate'' \<notin> set (map fst my_set_args) \<and> ordinary_name ''flow_rate'' \<and>
   Controller_getattr (sample_env []) [] sample_controller ''flow_rate'' = ([], Inr PNone) \<and>
   Controller_setattr (sample_env []) [] sample_controller ''flow_rate'' (PInt 3)
     = ([], \<lparr>attrs = [(''parent'', PSprinkler sample_sprinkler), (''flow_rate'', PInt 3)]\<rparr>, Inr ())"
proof -
  have g: "''flow_rate'' \<notin> set (map fst my_get_args)" by (simp add: my_get_args_def)
  have s: "''flow_rate'' \<notin> set (map fst my_set_args)" by (simp add: my_set_args_def)
  have n: "ordinary_name ''flow_rate''" by (simp add: ordinary_name_def)
  show ?thesis
    using unknown_name_no_error [OF sample_controller_ok(1), of "''flow_rate''" "sample_env []" "[]" "PInt 3"]
      sample_controller_ok(1) g s n
    by (simp add: sample_controller_def)
qed

text \<open>
  C3 as stated fails for the name \<^verbatim>\<open>flow_rate\<close>, which is in neither registry: the read
  returns \<^verbatim>\<open>None\<close> and the assignment returns normally.
\<close>

theorem unknown_name_counterexample:
  "''flow_rate'' \<notin> set (map fst my_get_args) \<and>
   Controller_getattr (sample_env []) [] sample_controller ''flow_rate'' = ([], Inr PNone) \<and>
   ''flow_rate'' \<notin> set (map fst my_set_args) \<and>
   Controller_setattr (sample_env []) [] sample_controller ''flow_rate'' (PInt 3)
     = ([], \<lparr>attrs = [(''parent'', PSprinkler sample_sprinkler), (''flow_rate'', PInt 3)]\<rparr>, Inr ())"
proof -
  have g: "''flow_rate'' \<notin> set (map fst my_get_args)" by (simp add: my_get_args_def)
  have s: "''flow_rate'' \<notin> set (map fst my_set_args)" by (simp add: my_set_args_def)
  have n: "ordinary_name ''flow_rate''" by (simp add: ordinary_name_def)
  have a: "Controller_getattr (sample_env []) [] sample_controller ''flow_rate'' = ([], Inr PNone)"
    by (rule getattr_unregistered [OF sample_controller_ok(1) g])
  have "Controller_setattr (sample_env []) [] sample_controller ''flow_rate'' (PInt 3)
     = ([], sample_controller\<lparr>attrs := dict_set (attrs sample_controller) ''flow_rate'' (PInt 3)\<rparr>, Inr ())"
    by (simp add: setattr_unregistered [OF sample_controller_ok(1) s] object_setattr_ordinary [OF n])
  then have b: "Controller_setattr (sample_env []) [] sample_controller ''flow_rate'' (PInt 3)
     = ([], \<lparr>attrs = [(''parent'', PSprinkler sample_sprinkler), (''flow_rate'', PInt 3)]\<rparr>, Inr ())"
    by (simp add: sample_controller_def)
  from g s a b show ?thesis by blast
qed

section \<open>Failure responses\<close>

lemma STATUS_CODES_getitem_PInt:
  "STATUS_CODES_getitem (PInt n) =
     (case map_of STATUS_CODES n of None \<Rightarrow> Inl (KeyError (PInt n)) | Some s \<Rightarrow> Inr s)"
  by (simp add: STATUS_CODES_getitem_def)

lemma json_get_failure:
  assumes "answers e sent (request_url e p path vars) doc"
    and "map_of doc ''result'' = Some (PInt n)" and "n \<noteq> 1"
  shows "json_get e sent p path vars =
          (sent @ [request_url e p path vars],
           Inl (case map_of STATUS_CODES n of
                  None \<Rightarrow> KeyError (PInt n)
                | Some msg \<Rightarrow> ValueError [PStr ''Failure response (%d):%s'', PInt n, PStr msg]))"
  using assms(2,3)
  by (simp add: json_get_answers [OF assms(1)] eq_int_def STATUS_SUCCESS_def
      STATUS_CODES_getitem_PInt split: option.splits)

lemma rain_delay_payload:
  "map_of my_set_args ''rain_delay'' = Some \<lparr>tag = ''rd'', type = RainDelaySet\<rparr>"
  "setAsType e \<lparr>tag = ''rd'', type = RainDelaySet\<rparr> [] = Inr [(''rd'', PInt 0)]"
  by (simp_all add: my_set_args_def setAsType_def RainDelaySet_def)

text \<open>
  For a code of the table other than 1, the read of a registered name fails with the
  \<^verbatim>\<open>ValueError\<close> that carries the format, the code and the meaning of the code.
\<close>

lemma table_code_failure:
  assumes "registries_of_class self" and "has_parent self p"
    and "name \<in> set (map fst my_get_args)"
    and "answers e sent (request_url e p ''jc'' None) doc"
    and "map_of doc ''result'' = Some (PInt n)" and "n \<noteq> 1"
    and "map_of STATUS_CODES n = Some msg"
  shows "Controller_getattr e sent self name =
           (sent @ [request_url e p ''jc'' None],
            Inl (ValueError [PStr ''Failure response (%d):%s'', PInt n, PStr msg]))"
proof -
  obtain d where d: "map_of my_get_args name = Some d"
    using assms(3) by (cases "map_of my_get_args name") (auto simp add: map_of_eq_None_iff)
  show ?thesis
    by (simp add: getattr_registered [OF assms(1,2) d] json_get_failure [OF assms(4,5,6)] assms(7))
qed

text \<open>
  C4 does not hold of the code for a code that the table does not have. With the
  envelope \<^verbatim>\<open>{"result": 2}\<close> a read fails with the \<^verbatim>\<open>ValueError\<close> of code 2 and its
  meaning, as the claim says. With \<^verbatim>\<open>{"result": 99}\<close> the look-up \<^verbatim>\<open>STATUS_CODES[99]\<close>,
  made to build that error, raises \<^verbatim>\<open>KeyError\<close>: the look-up crashes, and no error
  reports an unknown code.
\<close>

theorem unknown_code_crashes:
  "Controller_getattr (sample_env [(''result'', PInt 2)]) [] sample_controller ''enable''
     = ([''http://sprinkler.local/jc/?pw=5f4dcc3b5aa765d61d8327deb882cf99''],
        Inl (ValueError [PStr ''Failure response (%d):%s'', PInt 2,
               PStr ''Unauthorized (e.g. missing password or password is incorrect)''])) \<and>
   Controller_getattr (sample_env [(''result'', PInt 99)]) [] sample_controller ''enable''
     = ([''http://sprinkler.local/jc/?pw=5f4dcc3b5aa765d61d8327deb882cf99''],
        Inl (KeyError (PInt 99)))"
proof -
  have d: "map_of my_get_args ''enable'' = Some \<lparr>tag = ''en'', type = py_bool\<rparr>"
    by (simp add: my_get_args_def)
  have r2: "map_of [(''result'', PInt 2)] ''result'' = Some (PInt 2)" by simp
  have n2: "(2::int) \<noteq> 1" by simp
  have t2: "map_of STATUS_CODES 2
      = Some ''Unauthorized (e.g. missing password or password is incorrect)''"
    by (simp add: STATUS_CODES_def)
  have a: "Controller_getattr (sample_env [(''result'', PInt 2)]) [] sample_controller ''enable''
     = ([''http://sprinkler.local/jc/?pw=5f4dcc3b5aa765d61d8327deb882cf99''],
        Inl (ValueError [PStr ''Failure response (%d):%s'', PInt 2,
               PStr ''Unauthorized (e.g. missing password or password is incorrect)'']))"
    by (simp add: getattr_registered [OF sample_controller_ok(1,2) d]
        json_get_failure [OF sample_answers r2 n2] t2 sample_url)
  have r: "map_of [(''result'', PInt 99)] ''result'' = Some (PInt 99)" by simp
  have n: "(99::int) \<noteq> 1" by simp
  have t: "map_of STATUS_CODES 99 = None" by (simp add: STATUS_CODES_def)
  have b: "Controller_getattr (sample_env [(''result'', PInt 99)]) [] sample_controller ''enable''
     = ([''http://sprinkler.local/jc/?pw=5f4dcc3b5aa765d61d8327deb882cf99''],
        Inl (KeyError (PInt 99)))"
    by (simp add: getattr_registered [OF sample_controller_ok(1,2) d]
        json_get_failure [OF sample_answers r n] t sample_url)
  from a b show ?thesis by blast
qed

section \<open>Assignments\<close>

text \<open>
  An assignment to a name of the Set registry returns the controller as it was, and
  its outcome does not depend on the value assigned.
\<close>

lemma setattr_registered_self:
  assumes "registries_of_class self" and "name \<in> set (map fst my_set_args)"
  shows "\<exists>sent' r. Controller_setattr e sent self name v = (sent', self, r)"
proof -
  obtain d where d: "map_of my_set_args name = Some d"
    using assms(2) by (cases "map_of my_set_args name") (auto simp add: map_of_eq_None_iff)
  show ?thesis
    by (simp add: setattr_registered [OF assms(1) d] split: sum.splits prod.splits)
qed

lemma setattr_value_unused:
  assumes "registries_of_class self" and "name \<in> set (map fst my_set_args)"
  shows "Controller_setattr e sent self name v = Controller_setattr e sent self name v'"
proof -
  obtain d where d: "map_of my_set_args name = Some d"
    using assms(2) by (cases "map_of my_set_args name") (auto simp add: map_of_eq_None_iff)
  show ?thesis by (simp add: setattr_registered [OF assms(1) d])
qed

lemma set_names_unboundD:
  assumes "set_names_unbound self" and "name \<in> set (map fst my_set_args)"
  shows "map_of (attrs self) name = None"
  using assms unfolding set_names_unbound_def list_all_iff by blast

text \<open>
  C9: on a controller whose instance dictionary holds no name of the Set registry (and
  does not hide the registries), an assignment to a name of the Set registry leaves the
  object as it was, whatever its outcome; so for a name of both registries, such as
  \<^verbatim>\<open>enable\<close>, a read after the assignment is the call of \<^verbatim>\<open>__getattr__\<close>, which sends a
  new request to the status endpoint of the parent. An assignment to a name outside the
  Set registry stores the value in the instance dictionary, where a read finds it.
\<close>

theorem setattr_frame:
  assumes "registries_of_class self" and "set_names_unbound self"
  shows "(name \<in> set (map fst my_set_args) \<longrightarrow>
           (\<exists>sent' r. Controller_setattr e sent self name v = (sent', self, r) \<and>
              (name \<in> set (map fst my_get_args) \<longrightarrow>
                 read_attribute e' sent' self name = Controller_getattr e' sent' self name \<and>
                 (has_parent self p \<longrightarrow>
                    fst (read_attribute e' sent' self name)
                      = sent' @ [request_url e' p ''jc'' None])))) \<and>
         (name \<notin> set (map fst my_set_args) \<and> ordinary_name name \<longrightarrow>
            Controller_setattr e sent self name v
              = (sent, self\<lparr>attrs := dict_set (attrs self) name v\<rparr>, Inr ()) \<and>
            read_attribute e' sent (self\<lparr>attrs := dict_set (attrs self) name v\<rparr>) name
              = (sent, Inr v))"
proof (intro conjI impI)
  assume reg: "name \<in> set (map fst my_set_args)"
  obtain sent' r where st: "Controller_setattr e sent self name v = (sent', self, r)"
    using setattr_registered_self [OF assms(1) reg] by blast
  have none: "map_of (attrs self) name = None"
    by (rule set_names_unboundD [OF assms(2) reg])
  have rd: "read_attribute e' sent' self name = Controller_getattr e' sent' self name"
    by (simp add: read_attribute_def none)
  have "name \<in> set (map fst my_get_args) \<longrightarrow>
          read_attribute e' sent' self name = Controller_getattr e' sent' self name \<and>
          (has_parent self p \<longrightarrow>
             fst (read_attribute e' sent' self name) = sent' @ [request_url e' p ''jc'' None])"
    using rd fst_getattr_registered [OF assms(1), of p name e' sent'] by simp
  with st show "\<exists>sent' r. Controller_setattr e sent self name v = (sent', self, r) \<and>
              (name \<in> set (map fst my_get_args) \<longrightarrow>
                 read_attribute e' sent' self name = Controller_getattr e' sent' self name \<and>
                 (has_parent self p \<longrightarrow>
                    fst (read_attribute e' sent' self name)
                      = sent' @ [request_url e' p ''jc'' None]))"
    by blast
next
  assume h: "name \<notin> set (map fst my_set_args) \<and> ordinary_name name"
  then show "Controller_setattr e sent self name v
              = (sent, self\<lparr>attrs := dict_set (attrs self) name v\<rparr>, Inr ())"
    by (simp add: setattr_unregistered [OF assms(1)] object_setattr_ordinary)
next
  show "read_attribute e' sent (self\<lparr>attrs := dict_set (attrs self) name v\<rparr>) name = (sent, Inr v)"
    by (simp add: read_attribute_def map_of_dict_set)
qed

lemma sample_keys:
  "''enable'' \<in> set (map fst my_set_args)" "''enable'' \<in> set (map fst my_get_args)"
  "''rain_delay'' \<in> set (map fst my_set_args)" "''rain_delay'' \<in> set (map fst my_get_args)"
  by (simp_all add: my_set_args_def my_get_args_def)

lemma enable_payload:
  "map_of my_set_args ''enable'' = Some \<lparr>tag = ''en'', type = py_int\<rparr>"
  "setAsType e \<lparr>tag = ''en'', type = py_int\<rparr> [] = Inl TypeError"
  by (simp_all add: my_set_args_def setAsType_def py_int_def)

lemma setattr_enable:
  assumes "registries_of_class self"
  shows "Controller_setattr e sent self ''enable'' v = (sent, self, Inl TypeError)"
  by (simp add: setattr_registered [OF assms enable_payload(1)] enable_payload(2))

theorem setattr_frame_witness:
  "registries_of_class sample_controller \<and> set_names_unbound sample_controller \<and>
   ''enable'' \<in> set (map fst my_set_args) \<and> ''enable'' \<in> set (map fst my_get_args) \<and>
   has_parent sample_controller sample_sprinkler \<and>
   Controller_setattr (sample_env [(''en'', PInt 1)]) [] sample_controller ''enable'' (PInt 0)
     = ([], sample_controller, Inl TypeError) \<and>
   read_attribute (sample_env [(''en'', PInt 1)]) [] sample_controller ''enable''
     = Controller_getattr (sample_env [(''en'', PInt 1)]) [] sample_controller ''enable'' \<and>
   fst (read_attribute (sample_env [(''en'', PInt 1)]) [] sample_controller ''enable'')
     = [''http://sprinkler.local/jc/?pw=5f4dcc3b5aa765d61d8327deb882cf99'']"
proof -
  have s: "Controller_setattr (sample_env [(''en'', PInt 1)]) [] sample_controller ''enable'' (PInt 0)
     = ([], sample_controller, Inl TypeError)"
    by (rule setattr_enable [OF sample_controller_ok(1)])
  show ?thesis
    using setattr_frame [OF sample_controller_ok(1,3), of "''enable''" "sample_env [(''en'', PInt 1)]"
        "[]" "PInt 0" "sample_env [(''en'', PInt 1)]" sample_sprinkler]
      sample_controller_ok sample_keys(1,2) s
    by (auto simp add: sample_url)
qed

text \<open>
  The controllers that C9 is about are those that \<^verbatim>\<open>__init__\<close> makes and assignments
  change, as long as no assignment replaces a registry or the instance dictionary.
\<close>

lemma init_state:
  "Controller_init e sent p = (sent, \<lparr>attrs = [(''parent'', p)]\<rparr>, Inr ())"
proof -
  have c: "registries_of_class \<lparr>attrs = []\<rparr>" by (simp add: registries_of_class_def)
  have n: "''parent'' \<notin> set (map fst my_set_args)" by (simp add: my_set_args_def)
  have o: "ordinary_name ''parent''" by (simp add: ordinary_name_def)
  show ?thesis
    by (simp add: Controller_init_def setattr_unregistered [OF c n] object_setattr_ordinary [OF o])
qed

lemma init_consistent:
  "registries_of_class \<lparr>attrs = [(''parent'', p)]\<rparr>"
  "set_names_unbound \<lparr>attrs = [(''parent'', p)]\<rparr>"
  "has_parent \<lparr>attrs = [(''parent'', PSprinkler q)]\<rparr> q"
  by (simp_all add: registries_of_class_def set_names_unbound_def has_parent_def my_set_args_def)

lemma setattr_keeps_consistent:
  assumes "registries_of_class self" and "set_names_unbound self"
    and "name \<notin> set [''my_get_args'', ''my_set_args'', ''__dict__'']"
    and "Controller_setattr e sent self name v = (sent', self', r)"
  shows "registries_of_class self' \<and> set_names_unbound self'"
proof (cases "name \<in> set (map fst my_set_args)")
  case True
  then have "self' = self"
    using setattr_registered_self [OF assms(1) True, of e sent v] assms(4) by auto
  then show ?thesis using assms(1,2) by simp
next
  case False
  show ?thesis
  proof (cases "ordinary_name name")
    case True
    then have s: "self' = self\<lparr>attrs := dict_set (attrs self) name v\<rparr>"
      using assms(4) by (simp add: setattr_unregistered [OF assms(1) False] object_setattr_ordinary)
    have "registries_of_class self'"
      using assms(1,3) by (auto simp add: s registries_of_class_def map_of_dict_set)
    moreover have "set_names_unbound self'"
      using assms(2) False
      by (auto simp add: s set_names_unbound_def list_all_iff map_of_dict_set)
    ultimately show ?thesis by simp
  next
    case False
    then have "object_setattr self name v = Inl TypeError \<or> object_setattr self name v = Inl AttributeError"
      using assms(3) by (auto simp add: ordinary_name_def object_setattr_def)
    then have "self' = self"
      using assms(4) \<open>name \<notin> set (map fst my_set_args)\<close>
      by (auto simp add: setattr_unregistered [OF assms(1)])
    then show ?thesis using assms(1,2) by simp
  qed
qed

lemma sample_cv_url:
  "request_url e sample_sprinkler ''cv'' (Some [(''rd'', PInt 0)])
     = ''http://sprinkler.local/cv/?pw=5f4dcc3b5aa765d61d8327deb882cf99&rd=0''"
  by (simp add: request_url_def sample_sprinkler_def py_str_def str_int_def str_nat.simps
      digit_char_def)

text \<open>
  C2 does not hold of the code: \<^verbatim>\<open>__setattr__\<close> passes the empty payload, not the value,
  to the descriptor. The assignment \<^verbatim>\<open>enable = 1\<close> raises \<^verbatim>\<open>TypeError\<close> (the \<^verbatim>\<open>int\<close> of
  a dictionary) and sends nothing, and the assignment to \<^verbatim>\<open>rain_delay\<close> of a time 90
  minutes ahead, which encodes to 90, sends \<^verbatim>\<open>rd=0\<close>.
\<close>

theorem setattr_ignores_value:
  "Controller_setattr (sample_env []) [] sample_controller ''enable'' (PInt 1)
     = ([], sample_controller, Inl TypeError) \<and>
   RainDelaySet (sample_env []) (PDateTime (now (sample_env []) + 90 * minute_us)) = Inr (PInt 90) \<and>
   Controller_setattr (sample_env []) [] sample_controller ''rain_delay''
       (PDateTime (now (sample_env []) + 90 * minute_us))
     = ([''http://sprinkler.local/cv/?pw=5f4dcc3b5aa765d61d8327deb882cf99&rd=0''],
        sample_controller, Inr ())"
proof -
  have a: "Controller_setattr (sample_env []) [] sample_controller ''enable'' (PInt 1)
     = ([], sample_controller, Inl TypeError)"
    by (rule setattr_enable [OF sample_controller_ok(1)])
  have b: "RainDelaySet (sample_env []) (PDateTime (now (sample_env []) + 90 * minute_us))
     = Inr (PInt 90)"
    by (subst RainDelaySet_exact) (simp_all add: day_us_def minute_us_def)
  have j: "json_get (sample_env []) [] sample_sprinkler ''cv'' (Some [(''rd'', PInt 0)])
     = ([''http://sprinkler.local/cv/?pw=5f4dcc3b5aa765d61d8327deb882cf99&rd=0''], Inr [])"
    by (simp add: json_get_answers [OF sample_answers] sample_cv_url)
  have c: "Controller_setattr (sample_env []) [] sample_controller ''rain_delay''
       (PDateTime (now (sample_env []) + 90 * minute_us))
     = ([''http://sprinkler.local/cv/?pw=5f4dcc3b5aa765d61d8327deb882cf99&rd=0''],
        sample_controller, Inr ())"
    by (simp add: setattr_registered [OF sample_controller_ok(1) rain_delay_payload(1)]
        rain_delay_payload(2) parent_json_get_bound [OF sample_controller_ok(2)] j)
  from a b c show ?thesis by blast
qed

end
